theory Spec2Isabelle
  imports Complex_Main
begin

section \<open>Python floats: IEEE 754 binary64, round to nearest, ties to even\<close>

text \<open>
  The source computes with Python \<^verbatim>\<open>float\<close>, the binary64 format. A finite float is
  modelled by the rational number it denotes; the two infinities, NaN and the negative
  zero are values of their own (\<open>Fin 0\<close> is the positive zero). Every arithmetic result
  is the exact rational result rounded by \<open>round_binary64\<close>: 53 significant bits, least
  exponent \<open>-1074\<close> (subnormal numbers), overflow to an infinity from \<open>2 ^ 1024\<close> on.
\<close>

text \<open>\<open>flog2 q\<close> is the binary exponent of a positive rational: \<open>2 ^ flog2 q \<le> q < 2 ^ (flog2 q + 1)\<close>.\<close>

function flog2 :: "rat \<Rightarrow> int" where
  "flog2 q = (if q \<le> 0 then 0
              else if 2 \<le> q then flog2 (q / 2) + 1
              else if q < 1 then flog2 (q * 2) - 1
              else 0)"
  by pat_completeness auto
termination
proof (relation "measure (\<lambda>q. nat \<lceil>q\<rceil> + 2 * nat \<lceil>1 / q\<rceil>)", goal_cases)
  case 1
  show ?case by simp
next
  case (2 q)
  then have q2: "2 \<le> q" by simp
  have "q / 2 \<le> of_int (\<lceil>q\<rceil> - 1)"
    using q2 le_of_int_ceiling [of q] by (simp, linarith)
  then have a: "\<lceil>q / 2\<rceil> \<le> \<lceil>q\<rceil> - 1"
    by (simp only: ceiling_le_iff)
  have pos: "0 < \<lceil>q / 2\<rceil>"
    using q2 by (simp add: less_ceiling_iff)
  have b: "\<lceil>1 / (q / 2)\<rceil> = 1"
    using q2 by (intro ceiling_unique) (simp_all add: field_simps)
  have c: "\<lceil>1 / q\<rceil> = 1"
    using q2 by (intro ceiling_unique) (simp_all add: field_simps)
  have "nat \<lceil>q / 2\<rceil> + 2 * nat \<lceil>1 / (q / 2)\<rceil> < nat \<lceil>q\<rceil> + 2 * nat \<lceil>1 / q\<rceil>"
    using a pos by (simp only: b c)
  then show ?case by simp
next
  case (3 q)
  then have q01: "0 < q" "q < 1" by simp_all
  have a: "\<lceil>q\<rceil> = 1"
    using q01 by (intro ceiling_unique) simp_all
  have "q * 2 \<le> of_int 2"
    using q01 by simp
  then have b: "\<lceil>q * 2\<rceil> \<le> 2"
    by (simp only: ceiling_le_iff)
  have "1 < 1 / q"
    using q01 by (simp add: field_simps)
  then have n2: "2 \<le> \<lceil>1 / q\<rceil>"
    using less_ceiling_iff [of 1 "1 / q"] by simp
  have "1 / (q * 2) \<le> of_int \<lceil>1 / q\<rceil> / 2"
    using le_of_int_ceiling [of "1 / q"] by (simp add: field_simps)
  also have "\<dots> \<le> of_int (\<lceil>1 / q\<rceil> - 1)"
    using n2 by simp
  finally have c: "\<lceil>1 / (q * 2)\<rceil> \<le> \<lceil>1 / q\<rceil> - 1"
    by (simp only: ceiling_le_iff)
  have "nat \<lceil>q * 2\<rceil> + 2 * nat \<lceil>1 / (q * 2)\<rceil> < nat \<lceil>q\<rceil> + 2 * nat \<lceil>1 / q\<rceil>"
    using b c n2 by (simp only: a)
  then show ?case by simp
qed

declare flog2.simps [simp del]

definition round_half_even :: "rat \<Rightarrow> int" where
  "round_half_even y =
     (let f = \<lfloor>y\<rfloor>; d = y - of_int f
      in if d < 1 / 2 then f else if 1 / 2 < d then f + 1
         else if even f then f else f + 1)"

datatype pyfloat = Fin rat | NegZero | PosInf | NegInf | NaN

definition round_binary64 :: "rat \<Rightarrow> pyfloat" where
  "round_binary64 q =
     (if q = 0 then Fin 0
      else let e = max (flog2 \<bar>q\<bar> - 52) (- 1074);
               m = round_half_even (\<bar>q\<bar> / 2 powi e);
               r = of_int m * 2 powi e
           in if 2 ^ 1024 \<le> r then (if q < 0 then NegInf else PosInf)
              else if m = 0 then (if q < 0 then NegZero else Fin 0)
              else Fin (if q < 0 then - r else r))"

fun is_finite :: "pyfloat \<Rightarrow> bool" where
  "is_finite (Fin r) = True"
| "is_finite NegZero = True"
| "is_finite _ = False"

fun is_inf :: "pyfloat \<Rightarrow> bool" where
  "is_inf PosInf = True"
| "is_inf NegInf = True"
| "is_inf _ = False"

fun is_zero :: "pyfloat \<Rightarrow> bool" where
  "is_zero (Fin r) = (r = 0)"
| "is_zero NegZero = True"
| "is_zero _ = False"

fun is_neg :: "pyfloat \<Rightarrow> bool" where
  "is_neg (Fin r) = (r < 0)"
| "is_neg NegZero = True"
| "is_neg NegInf = True"
| "is_neg _ = False"

text \<open>The rational value of a finite float (both zeros have the value 0).\<close>

fun fval :: "pyfloat \<Rightarrow> rat" where
  "fval (Fin r) = r"
| "fval _ = 0"

text \<open>Python's \<^verbatim>\<open>a * b\<close> on two floats. It never raises.\<close>

definition fmul :: "pyfloat \<Rightarrow> pyfloat \<Rightarrow> pyfloat" where
  "fmul a b =
     (if a = NaN \<or> b = NaN then NaN
      else if is_inf a \<or> is_inf b then
        (if is_zero a \<or> is_zero b then NaN
         else if is_neg a \<noteq> is_neg b then NegInf else PosInf)
      else if is_zero a \<or> is_zero b then
        (if is_neg a \<noteq> is_neg b then NegZero else Fin 0)
      else round_binary64 (fval a * fval b))"

text \<open>Python's \<^verbatim>\<open>a == b\<close> on two floats: NaN equals nothing, the two zeros are equal.\<close>

definition feq :: "pyfloat \<Rightarrow> pyfloat \<Rightarrow> bool" where
  "feq a b =
     (if a = NaN \<or> b = NaN then False
      else if is_zero a \<or> is_zero b then is_zero a \<and> is_zero b
      else a = b)"

section \<open>Python values and the built-ins the source uses\<close>

text \<open>
  A raw record holds untyped Python values. The model covers \<^verbatim>\<open>None\<close>, \<^verbatim>\<open>bool\<close>,
  \<^verbatim>\<open>int\<close>, \<^verbatim>\<open>float\<close> and \<^verbatim>\<open>str\<close>; a string is a list of characters with
  code points below 256.
\<close>

datatype error = TypeError | ValueError | OverflowError | IndexError | ValidationError

datatype pyval = PNone | PBool bool | PInt int | PFloat pyfloat | PStr string

text \<open>Sequencing of computations that may raise: the first error ends the sequence.\<close>

definition bind_err :: "error + 'a \<Rightarrow> ('a \<Rightarrow> error + 'b) \<Rightarrow> error + 'b" where
  "bind_err m f = (case m of Inl e \<Rightarrow> Inl e | Inr x \<Rightarrow> f x)"

text \<open>Truth value of an object, as \<^verbatim>\<open>or\<close> and \<^verbatim>\<open>if\<close> test it.\<close>

fun truthy :: "pyval \<Rightarrow> bool" where
  "truthy PNone = False"
| "truthy (PBool b) = b"
| "truthy (PInt n) = (n \<noteq> 0)"
| "truthy (PFloat f) = (\<not> is_zero f)"
| "truthy (PStr s) = (s \<noteq> [])"

text \<open>\<^verbatim>\<open>a or b\<close>: the first operand if it is true, else the second.\<close>

definition py_or :: "pyval \<Rightarrow> pyval \<Rightarrow> pyval" where
  "py_or a b = (if truthy a then a else b)"

text \<open>
  \<^verbatim>\<open>a == b\<close>. Numbers (\<^verbatim>\<open>bool\<close> counts as 0 or 1) compare by value across the three
  numeric types; a string equals only an equal string; \<^verbatim>\<open>None\<close> only \<^verbatim>\<open>None\<close>.
\<close>

fun num_of :: "pyval \<Rightarrow> pyfloat option" where
  "num_of (PBool b) = Some (Fin (if b then 1 else 0))"
| "num_of (PInt n) = Some (Fin (of_int n))"
| "num_of (PFloat f) = Some f"
| "num_of _ = None"

definition py_eq :: "pyval \<Rightarrow> pyval \<Rightarrow> bool" where
  "py_eq a b =
     (case (a, b) of
        (PNone, PNone) \<Rightarrow> True
      | (PStr s, PStr t) \<Rightarrow> s = t
      | _ \<Rightarrow> (case (num_of a, num_of b) of
                 (Some x, Some y) \<Rightarrow> feq x y
               | _ \<Rightarrow> False))"

subsection \<open>Strings\<close>

definition is_digit :: "char \<Rightarrow> bool" where
  "is_digit c = (c \<in> set ''0123456789'')"

definition digit_val :: "char \<Rightarrow> nat" where
  "digit_val c = of_char c - 48"

definition nat_of_digits :: "string \<Rightarrow> nat" where
  "nat_of_digits ds = foldl (\<lambda>n c. 10 * n + digit_val c) 0 ds"

text \<open>
  The characters that \<^verbatim>\<open>float\<close> and \<^verbatim>\<open>int\<close> skip at both ends of a string: the
  ASCII white space and, of the code points from 128 to 255, the next-line character
  and the no-break space. The separators 0x1C to 0x1F are not among them (they are white
  space only for \<^verbatim>\<open>str.strip\<close>, which the source does not call).
\<close>

definition is_space :: "char \<Rightarrow> bool" where
  "is_space c = (c \<in> set [CHR 0x09, CHR 0x0A, CHR 0x0B, CHR 0x0C, CHR 0x0D, CHR 0x20,
                             CHR 0x85, CHR 0xA0])"

text \<open>The string without the leading and trailing characters of this kind.\<close>

definition strip :: "string \<Rightarrow> string" where
  "strip s = rev (dropWhile is_space (rev (dropWhile is_space s)))"

definition ascii_lower :: "string \<Rightarrow> string" where
  "ascii_lower s =
     map (\<lambda>c. if 65 \<le> (of_char c :: nat) \<and> (of_char c :: nat) \<le> 90
               then char_of (of_char c + (32 :: nat)) else c) s"

fun starts_with :: "string \<Rightarrow> string \<Rightarrow> bool" where
  "starts_with [] s = True"
| "starts_with (p # ps) [] = False"
| "starts_with (p # ps) (c # cs) = (p = c \<and> starts_with ps cs)"

text \<open>\<^verbatim>\<open>sub in s\<close>\<close>

fun contains :: "string \<Rightarrow> string \<Rightarrow> bool" where
  "contains sub [] = (sub = [])"
| "contains sub (c # cs) = (starts_with sub (c # cs) \<or> contains sub cs)"

text \<open>
  \<^verbatim>\<open>s.replace(old, new)\<close>: the occurrences of \<open>old\<close> are found from the left and do
  not overlap; an empty \<open>old\<close> matches before every character and at the end.
\<close>

function replace :: "string \<Rightarrow> string \<Rightarrow> string \<Rightarrow> string" where
  "replace old new s =
     (if old = [] then new @ concat (map (\<lambda>c. c # new) s)
      else case s of
             [] \<Rightarrow> []
           | c # cs \<Rightarrow> if starts_with old s then new @ replace old new (drop (length old) s)
                       else c # replace old new cs)"
  by pat_completeness auto
termination
  by (relation "measure (\<lambda>(old, new, s). length s)") auto

declare replace.simps [simp del]

text \<open>
  Underscores in a numeric string: allowed only between two digits. The result is the
  string without them, or \<open>None\<close> where one is misplaced. \<open>prev\<close> is the character
  before the rest.
\<close>

fun del_underscores :: "char \<Rightarrow> string \<Rightarrow> string option" where
  "del_underscores prev [] = (if prev = CHR ''_'' then None else Some [])"
| "del_underscores prev (c # cs) =
     (if c = CHR ''_'' then (if is_digit prev then del_underscores c cs else None)
      else if prev = CHR ''_'' \<and> \<not> is_digit c then None
      else map_option ((#) c) (del_underscores c cs))"

text \<open>An optional sign: whether it is a minus, and the rest.\<close>

fun split_sign :: "string \<Rightarrow> bool \<times> string" where
  "split_sign [] = (False, [])"
| "split_sign (c # cs) =
     (if c = CHR ''-'' then (True, cs) else if c = CHR ''+'' then (False, cs)
      else (False, c # cs))"

text \<open>
  An unsigned decimal literal: digits, an optional point and digits (at least one digit
  in all), an optional exponent \<^verbatim>\<open>e\<close> or \<^verbatim>\<open>E\<close> with an optional sign and at least one
  digit. The value is the exact rational.
\<close>

definition parse_decimal :: "string \<Rightarrow> rat option" where
  "parse_decimal s =
     (let ip = takeWhile is_digit s;
          r1 = dropWhile is_digit s;
          fp = (case r1 of [] \<Rightarrow> [] | c # cs \<Rightarrow> if c = CHR ''.'' then takeWhile is_digit cs else []);
          r2 = (case r1 of [] \<Rightarrow> [] | c # cs \<Rightarrow> if c = CHR ''.'' then dropWhile is_digit cs else r1)
      in if ip = [] \<and> fp = [] then None
         else let m = of_nat (nat_of_digits (ip @ fp)) / 10 ^ length fp
              in case r2 of
                   [] \<Rightarrow> Some m
                 | c # cs \<Rightarrow>
                     if c = CHR ''e'' \<or> c = CHR ''E'' then
                       (case split_sign cs of
                          (neg, ds) \<Rightarrow>
                            if ds \<noteq> [] \<and> list_all is_digit ds
                            then Some (m * 10 powi (if neg then - int (nat_of_digits ds)
                                                     else int (nat_of_digits ds)))
                            else None)
                     else None)"

text \<open>
  A decimal literal of the source text, given by its digits and the number of digits
  after the point: \<open>float_lit 254 4\<close> is \<^verbatim>\<open>0.0254\<close>.
\<close>

definition float_lit :: "nat \<Rightarrow> nat \<Rightarrow> pyfloat" where
  "float_lit digits scale = round_binary64 (of_nat digits / 10 ^ scale)"

text \<open>\<^verbatim>\<open>float(s)\<close> for a string: \<^verbatim>\<open>ValueError\<close> unless the stripped string is a literal.\<close>

definition float_of_string :: "string \<Rightarrow> error + pyfloat" where
  "float_of_string s =
     (case del_underscores (CHR 0x00) (strip s) of
        None \<Rightarrow> Inl ValueError
      | Some t \<Rightarrow>
          (case split_sign t of
             (neg, u) \<Rightarrow>
               if ascii_lower u = ''inf'' \<or> ascii_lower u = ''infinity''
               then Inr (if neg then NegInf else PosInf)
               else if ascii_lower u = ''nan'' then Inr NaN
               else (case parse_decimal u of
                       None \<Rightarrow> Inl ValueError
                     | Some m \<Rightarrow>
                         Inr (if m = 0 then (if neg then NegZero else Fin 0)
                              else round_binary64 (if neg then - m else m)))))"

text \<open>\<^verbatim>\<open>float(x)\<close>\<close>

fun py_float :: "pyval \<Rightarrow> error + pyfloat" where
  "py_float PNone = Inl TypeError"
| "py_float (PBool b) = Inr (Fin (if b then 1 else 0))"
| "py_float (PInt n) =
     (if is_inf (round_binary64 (of_int n)) then Inl OverflowError
      else Inr (round_binary64 (of_int n)))"
| "py_float (PFloat f) = Inr f"
| "py_float (PStr s) = float_of_string s"

section \<open>The unit converter\<close>

text \<open>
  \<^verbatim>\<open>def convert_to_mm(dim: float) -> float: return float(dim) * 10 * 0.0254\<close>

  The product is evaluated from the left; \<^verbatim>\<open>10\<close> becomes the float 10.0 and the
  literal \<^verbatim>\<open>0.0254\<close> is \<open>float_lit 254 4\<close>, the float nearest to 254/10000.
\<close>

definition convert_to_mm :: "pyval \<Rightarrow> error + pyfloat" where
  "convert_to_mm d =
     (case py_float d of
        Inl e \<Rightarrow> Inl e
      | Inr f \<Rightarrow> Inr (fmul (fmul f (Fin 10)) (float_lit 254 4)))"

text \<open>
  The exact number a finite numeric argument stands for: an \<^verbatim>\<open>int\<close>, a \<^verbatim>\<open>bool\<close>
  (0 or 1) or a finite float.
\<close>

fun numeric_value :: "pyval \<Rightarrow> rat option" where
  "numeric_value (PBool b) = Some (if b then 1 else 0)"
| "numeric_value (PInt n) = Some (of_int n)"
| "numeric_value (PFloat f) = (if is_finite f then Some (fval f) else None)"
| "numeric_value _ = None"

section \<open>Field coercion: the validators of the source\<close>

text \<open>
  Each \<^verbatim>\<open>@validator(..., pre=True)\<close> method of the source is a function on the raw
  value of its field. It runs before the field's type is checked.
\<close>

subsection \<open>Symbol entities\<close>

text \<open>\<^verbatim>\<open>EeSymbolPinSettings.parse_display_field: return True if field == "show" else field\<close>\<close>

definition EeSymbolPinSettings_parse_display_field :: "pyval \<Rightarrow> pyval" where
  "EeSymbolPinSettings_parse_display_field field =
     (if py_eq field (PStr ''show'') then PBool True else field)"



text \<open>
  \<^verbatim>\<open>EeSymbolPinName.empty_str_font:\<close>
  \<^verbatim>\<open>    if isinstance(font_size, str) and "pt" in font_size:\<close>
  \<^verbatim>\<open>        return float(font_size.replace("pt", ""))\<close>
  \<^verbatim>\<open>    return font_size or 7.0\<close>
\<close>

definition EeSymbolPinName_empty_str_font :: "pyval \<Rightarrow> error + pyval" where
  "EeSymbolPinName_empty_str_font font_size =
     (case font_size of
        PStr s \<Rightarrow>
          if contains ''pt'' s
          then (case float_of_string (replace ''pt'' [] s) of
                  Inl e \<Rightarrow> Inl e
                | Inr f \<Rightarrow> Inr (PFloat f))
          else Inr (py_or font_size (PFloat (Fin 7)))
      | _ \<Rightarrow> Inr (py_or font_size (PFloat (Fin 7))))"

text \<open>The guard of the first branch: \<^verbatim>\<open>isinstance(font_size, str) and "pt" in font_size\<close>.\<close>

definition str_with_pt :: "pyval \<Rightarrow> bool" where
  "str_with_pt v = (case v of PStr s \<Rightarrow> contains ''pt'' s | _ \<Rightarrow> False)"

text \<open>\<^verbatim>\<open>EeSymbolPinName.parse_display_field: return True if field == "show" else field\<close>\<close>

definition EeSymbolPinName_parse_display_field :: "pyval \<Rightarrow> pyval" where
  "EeSymbolPinName_parse_display_field field =
     (if py_eq field (PStr ''show'') then PBool True else field)"

text \<open>\<^verbatim>\<open>EeSymbolPinName.empty_str_rotation: return rotation or 0.0\<close>\<close>

definition EeSymbolPinName_empty_str_rotation :: "pyval \<Rightarrow> pyval" where
  "EeSymbolPinName_empty_str_rotation rotation = py_or rotation (PFloat (Fin 0))"

text \<open>\<^verbatim>\<open>EeSymbolPinDotBis.parse_display_field: return True if field == "show" else field\<close>\<close>

definition EeSymbolPinDotBis_parse_display_field :: "pyval \<Rightarrow> pyval" where
  "EeSymbolPinDotBis_parse_display_field field =
     (if py_eq field (PStr ''show'') then PBool True else field)"

text \<open>\<^verbatim>\<open>EeSymbolPinClock.parse_display_field: return True if field == "show" else field\<close>\<close>

definition EeSymbolPinClock_parse_display_field :: "pyval \<Rightarrow> pyval" where
  "EeSymbolPinClock_parse_display_field field =
     (if py_eq field (PStr ''show'') then PBool True else field)"


text \<open>\<^verbatim>\<open>EeSymbolPolyline.empty_str_lock: return field or False\<close> (inherited by the polygon)\<close>

definition EeSymbolPolyline_empty_str_lock :: "pyval \<Rightarrow> pyval" where
  "EeSymbolPolyline_empty_str_lock field = py_or field (PBool False)"

text \<open>\<^verbatim>\<open>EeSymbolPath.empty_str_lock: return field or False\<close>\<close>

definition EeSymbolPath_empty_str_lock :: "pyval \<Rightarrow> pyval" where
  "EeSymbolPath_empty_str_lock field = py_or field (PBool False)"

subsection \<open>Footprint entities\<close>



text \<open>\<^verbatim>\<open>EeFootprintTrack.empty_str_lock: return field or False\<close>\<close>

definition EeFootprintTrack_empty_str_lock :: "pyval \<Rightarrow> pyval" where
  "EeFootprintTrack_empty_str_lock field = py_or field (PBool False)"

text \<open>\<^verbatim>\<open>EeFootprintHole.empty_str_lock: return field or False\<close>\<close>

definition EeFootprintHole_empty_str_lock :: "pyval \<Rightarrow> pyval" where
  "EeFootprintHole_empty_str_lock field = py_or field (PBool False)"

text \<open>\<^verbatim>\<open>EeFootprintCircle.empty_str_lock: return field or False\<close>\<close>

definition EeFootprintCircle_empty_str_lock :: "pyval \<Rightarrow> pyval" where
  "EeFootprintCircle_empty_str_lock field = py_or field (PBool False)"

text \<open>\<^verbatim>\<open>EeFootprintRectangle.empty_str_lock: return False if field == "" else field\<close>\<close>

definition EeFootprintRectangle_empty_str_lock :: "pyval \<Rightarrow> pyval" where
  "EeFootprintRectangle_empty_str_lock field =
     (if py_eq field (PStr []) then PBool False else field)"

text \<open>\<^verbatim>\<open>EeFootprintArc.empty_str_lock: return False if field == "" else field\<close>\<close>

definition EeFootprintArc_empty_str_lock :: "pyval \<Rightarrow> pyval" where
  "EeFootprintArc_empty_str_lock field =
     (if py_eq field (PStr []) then PBool False else field)"

text \<open>\<^verbatim>\<open>EeFootprintText.empty_str_display: return True if field == "" else field\<close>\<close>

definition EeFootprintText_empty_str_display :: "pyval \<Rightarrow> pyval" where
  "EeFootprintText_empty_str_display field =
     (if py_eq field (PStr []) then PBool True else field)"

text \<open>\<^verbatim>\<open>EeFootprintText.empty_str_lock: return False if field == "" else field\<close>\<close>

definition EeFootprintText_empty_str_lock :: "pyval \<Rightarrow> pyval" where
  "EeFootprintText_empty_str_lock field =
     (if py_eq field (PStr []) then PBool False else field)"

text \<open>\<^verbatim>\<open>EeFootprintText.empty_str_rotation: return 0.0 if field == "" else field\<close>\<close>

definition EeFootprintText_empty_str_rotation :: "pyval \<Rightarrow> pyval" where
  "EeFootprintText_empty_str_rotation field =
     (if py_eq field (PStr []) then PFloat (Fin 0) else field)"

section \<open>The entities\<close>

text \<open>
  One record for each class of the source, with the fields in the order of the source.
  A field holds a value of its declared type: \<^verbatim>\<open>float\<close> is \<open>pyfloat\<close>, \<^verbatim>\<open>int\<close> is
  \<open>int\<close>, \<^verbatim>\<open>str\<close> is \<open>string\<close>, \<^verbatim>\<open>bool\<close> is \<open>bool\<close> and \<^verbatim>\<open>Union[float, None]\<close>
  is \<open>pyfloat option\<close>. For the classes derived from \<^verbatim>\<open>BaseModel\<close> the validation at
  construction establishes this; for the \<^verbatim>\<open>@dataclass\<close> classes it is the annotation.
  Field names carry a prefix for their class, since a field name is global in HOL.
  An object that holds other objects holds them by value: two fields never share one
  object.
\<close>

subsection \<open>Symbol\<close>




record EeSymbolBbox =
  sbbox_x :: pyfloat
  sbbox_y :: pyfloat

record EeSymbolPinSettings =
  pset_is_displayed :: bool
  pset_type :: string
  pset_spice_pin_number :: string
  pset_pos_x :: pyfloat
  pset_pos_y :: pyfloat
  pset_rotation :: int
  pset_id :: string
  pset_is_locked :: bool

record EeSymbolPinDot =
  pdot_dot_x :: pyfloat
  pdot_dot_y :: pyfloat

record EeSymbolPinPath =
  ppath_path :: string
  ppath_color :: string

record EeSymbolPinName =
  pname_is_displayed :: bool
  pname_pos_x :: pyfloat
  pname_pos_y :: pyfloat
  pname_rotation :: int
  pname_text :: string
  pname_text_anchor :: string
  pname_font :: string
  pname_font_size :: pyfloat

record EeSymbolPinDotBis =
  pdotb_is_displayed :: bool
  pdotb_circle_x :: pyfloat
  pdotb_circle_y :: pyfloat

record EeSymbolPinClock =
  pclk_is_displayed :: bool
  pclk_path :: string

record EeSymbolPin =
  pin_settings :: EeSymbolPinSettings
  pin_pin_dot :: EeSymbolPinDot
  pin_pin_path :: EeSymbolPinPath
  pin_name :: EeSymbolPinName
  pin_dot :: EeSymbolPinDotBis
  pin_clock :: EeSymbolPinClock

record EeSymbolRectangle =
  srect_pos_x :: pyfloat
  srect_pos_y :: pyfloat
  srect_rx :: "pyfloat option"
  srect_ry :: "pyfloat option"
  srect_width :: pyfloat
  srect_height :: pyfloat
  srect_stroke_color :: string
  srect_stroke_width :: string
  srect_stroke_style :: string
  srect_fill_color :: string
  srect_id :: string
  srect_is_locked :: bool

text \<open>\<^verbatim>\<open>EeSymbolCircle\<close> and \<^verbatim>\<open>EeSymbolArc\<close> declare no field.\<close>

type_synonym EeSymbolCircle = unit

type_synonym EeSymbolArc = unit

record EeSymbolPolyline =
  spoly_points :: string
  spoly_stroke_color :: string
  spoly_stroke_width :: string
  spoly_stroke_style :: string
  spoly_fill_color :: string
  spoly_id :: string
  spoly_is_locked :: bool

text \<open>\<^verbatim>\<open>class EeSymbolPolygon(EeSymbolPolyline): ...\<close> adds nothing to the polyline.\<close>

type_synonym EeSymbolPolygon = EeSymbolPolyline

record EeSymbolPath =
  spath_paths :: string
  spath_stroke_color :: string
  spath_stroke_width :: string
  spath_stroke_style :: string
  spath_fill_color :: string
  spath_id :: string
  spath_is_locked :: bool

record EeSymbolInfo =
  sinfo_name :: string
  sinfo_prefix :: string
  sinfo_package :: string
  sinfo_manufacturer :: string
  sinfo_datasheet :: string
  sinfo_lcsc_id :: string
  sinfo_jlc_id :: string

record EeSymbol =
  sym_info :: EeSymbolInfo
  sym_bbox :: EeSymbolBbox
  sym_pins :: "EeSymbolPin list"
  sym_rectangles :: "EeSymbolRectangle list"
  sym_polylines :: "EeSymbolPolyline list"
  sym_polygons :: "EeSymbolPolygon list"
  sym_paths :: "EeSymbolPath list"

subsection \<open>Footprint\<close>

record EeFootprintBbox =
  fbbox_x :: pyfloat
  fbbox_y :: pyfloat

text \<open>
  \<^verbatim>\<open>EeFootprintBbox.convert_to_mm:\<close>
  \<^verbatim>\<open>    self.x = convert_to_mm(self.x)\<close>
  \<^verbatim>\<open>    self.y = convert_to_mm(self.y)\<close>

  A mutator is a function from the object before the call to the object after it, or to
  the error raised. Each assignment is one step of the sequence.
\<close>

definition EeFootprintBbox_convert_to_mm :: "EeFootprintBbox \<Rightarrow> error + EeFootprintBbox" where
  "EeFootprintBbox_convert_to_mm self =
     bind_err (convert_to_mm (PFloat (fbbox_x self))) (\<lambda>v. let self = self\<lparr>fbbox_x := v\<rparr> in
     bind_err (convert_to_mm (PFloat (fbbox_y self))) (\<lambda>v. let self = self\<lparr>fbbox_y := v\<rparr> in
     Inr self))"

record EeFootprintPad =
  pad_shape :: string
  pad_center_x :: pyfloat
  pad_center_y :: pyfloat
  pad_width :: pyfloat
  pad_height :: pyfloat
  pad_layer_id :: int
  pad_net :: string
  pad_number :: string
  pad_hole_radius :: pyfloat
  pad_points :: string
  pad_rotation :: pyfloat
  pad_id :: string
  pad_hole_length :: pyfloat
  pad_hole_point :: string
  pad_is_plated :: bool
  pad_is_locked :: bool

text \<open>
  \<^verbatim>\<open>EeFootprintPad.convert_to_mm:\<close>
  \<^verbatim>\<open>    self.center_x = convert_to_mm(self.center_x)\<close>
  \<^verbatim>\<open>    self.center_y = convert_to_mm(self.center_y)\<close>
  \<^verbatim>\<open>    self.width = convert_to_mm(self.width)\<close>
  \<^verbatim>\<open>    self.height = convert_to_mm(self.height)\<close>
  \<^verbatim>\<open>    self.hole_radius = convert_to_mm(self.hole_radius)\<close>
  \<^verbatim>\<open>    self.hole_length = convert_to_mm(self.hole_length)\<close>
\<close>

definition EeFootprintPad_convert_to_mm :: "EeFootprintPad \<Rightarrow> error + EeFootprintPad" where
  "EeFootprintPad_convert_to_mm self =
     bind_err (convert_to_mm (PFloat (pad_center_x self))) (\<lambda>v. let self = self\<lparr>pad_center_x := v\<rparr> in
     bind_err (convert_to_mm (PFloat (pad_center_y self))) (\<lambda>v. let self = self\<lparr>pad_center_y := v\<rparr> in
     bind_err (convert_to_mm (PFloat (pad_width self))) (\<lambda>v. let self = self\<lparr>pad_width := v\<rparr> in
     bind_err (convert_to_mm (PFloat (pad_height self))) (\<lambda>v. let self = self\<lparr>pad_height := v\<rparr> in
     bind_err (convert_to_mm (PFloat (pad_hole_radius self))) (\<lambda>v. let self = self\<lparr>pad_hole_radius := v\<rparr> in
     bind_err (convert_to_mm (PFloat (pad_hole_length self))) (\<lambda>v. let self = self\<lparr>pad_hole_length := v\<rparr> in
     Inr self))))))"

record EeFootprintTrack =
  track_stroke_width :: pyfloat
  track_layer_id :: int
  track_net :: string
  track_points :: string
  track_id :: string
  track_is_locked :: bool

text \<open>\<^verbatim>\<open>EeFootprintTrack.convert_to_mm: self.stroke_width = convert_to_mm(self.stroke_width)\<close>\<close>

definition EeFootprintTrack_convert_to_mm :: "EeFootprintTrack \<Rightarrow> error + EeFootprintTrack" where
  "EeFootprintTrack_convert_to_mm self =
     bind_err (convert_to_mm (PFloat (track_stroke_width self))) (\<lambda>v. let self = self\<lparr>track_stroke_width := v\<rparr> in
     Inr self)"

record EeFootprintHole =
  hole_center_x :: pyfloat
  hole_center_y :: pyfloat
  hole_radius :: pyfloat
  hole_id :: string
  hole_is_locked :: bool

text \<open>
  \<^verbatim>\<open>EeFootprintHole.convert_to_mm:\<close>
  \<^verbatim>\<open>    self.center_x = convert_to_mm(self.center_x)\<close>
  \<^verbatim>\<open>    self.center_y = convert_to_mm(self.center_y)\<close>
  \<^verbatim>\<open>    self.radius = convert_to_mm(self.radius)\<close>
\<close>

definition EeFootprintHole_convert_to_mm :: "EeFootprintHole \<Rightarrow> error + EeFootprintHole" where
  "EeFootprintHole_convert_to_mm self =
     bind_err (convert_to_mm (PFloat (hole_center_x self))) (\<lambda>v. let self = self\<lparr>hole_center_x := v\<rparr> in
     bind_err (convert_to_mm (PFloat (hole_center_y self))) (\<lambda>v. let self = self\<lparr>hole_center_y := v\<rparr> in
     bind_err (convert_to_mm (PFloat (hole_radius self))) (\<lambda>v. let self = self\<lparr>hole_radius := v\<rparr> in
     Inr self)))"

record EeFootprintCircle =
  circ_cx :: pyfloat
  circ_cy :: pyfloat
  circ_radius :: pyfloat
  circ_stroke_width :: pyfloat
  circ_layer_id :: int
  circ_id :: string
  circ_is_locked :: bool

text \<open>
  \<^verbatim>\<open>EeFootprintCircle.convert_to_mm:\<close>
  \<^verbatim>\<open>    self.cx = convert_to_mm(self.cx)\<close>
  \<^verbatim>\<open>    self.cy = convert_to_mm(self.cy)\<close>
  \<^verbatim>\<open>    self.radius = convert_to_mm(self.radius)\<close>
  \<^verbatim>\<open>    self.stroke_width = convert_to_mm(self.stroke_width)\<close>
\<close>

definition EeFootprintCircle_convert_to_mm :: "EeFootprintCircle \<Rightarrow> error + EeFootprintCircle" where
  "EeFootprintCircle_convert_to_mm self =
     bind_err (convert_to_mm (PFloat (circ_cx self))) (\<lambda>v. let self = self\<lparr>circ_cx := v\<rparr> in
     bind_err (convert_to_mm (PFloat (circ_cy self))) (\<lambda>v. let self = self\<lparr>circ_cy := v\<rparr> in
     bind_err (convert_to_mm (PFloat (circ_radius self))) (\<lambda>v. let self = self\<lparr>circ_radius := v\<rparr> in
     bind_err (convert_to_mm (PFloat (circ_stroke_width self))) (\<lambda>v. let self = self\<lparr>circ_stroke_width := v\<rparr> in
     Inr self))))"

record EeFootprintRectangle =
  frect_x :: pyfloat
  frect_y :: pyfloat
  frect_width :: pyfloat
  frect_height :: pyfloat
  frect_stroke_width :: pyfloat
  frect_id :: string
  frect_layer_id :: int
  frect_is_locked :: bool

text \<open>
  \<^verbatim>\<open>EeFootprintRectangle.convert_to_mm:\<close>
  \<^verbatim>\<open>    self.x = convert_to_mm(self.x)\<close>
  \<^verbatim>\<open>    self.y = convert_to_mm(self.y)\<close>
  \<^verbatim>\<open>    self.width = convert_to_mm(self.width)\<close>
  \<^verbatim>\<open>    self.height = convert_to_mm(self.height)\<close>
\<close>

definition EeFootprintRectangle_convert_to_mm :: "EeFootprintRectangle \<Rightarrow> error + EeFootprintRectangle" where
  "EeFootprintRectangle_convert_to_mm self =
     bind_err (convert_to_mm (PFloat (frect_x self))) (\<lambda>v. let self = self\<lparr>frect_x := v\<rparr> in
     bind_err (convert_to_mm (PFloat (frect_y self))) (\<lambda>v. let self = self\<lparr>frect_y := v\<rparr> in
     bind_err (convert_to_mm (PFloat (frect_width self))) (\<lambda>v. let self = self\<lparr>frect_width := v\<rparr> in
     bind_err (convert_to_mm (PFloat (frect_height self))) (\<lambda>v. let self = self\<lparr>frect_height := v\<rparr> in
     Inr self))))"

text \<open>\<^verbatim>\<open>EeFootprintArc\<close> declares its fields and one validator, and no other method.\<close>

record EeFootprintArc =
  arc_stroke_width :: pyfloat
  arc_layer_id :: int
  arc_net :: string
  arc_path :: string
  arc_helper_dots :: string
  arc_id :: string
  arc_is_locked :: bool

record EeFootprintText =
  text_type :: string
  text_center_x :: pyfloat
  text_center_y :: pyfloat
  text_stroke_width :: pyfloat
  text_rotation :: int
  text_miror :: string
  text_layer_id :: int
  text_net :: string
  text_font_size :: pyfloat
  text_text :: string
  text_text_path :: string
  text_is_displayed :: bool
  text_id :: string
  text_is_locked :: bool

text \<open>
  \<^verbatim>\<open>EeFootprintText.convert_to_mm:\<close>
  \<^verbatim>\<open>    self.center_x = convert_to_mm(self.center_x)\<close>
  \<^verbatim>\<open>    self.center_y = convert_to_mm(self.center_y)\<close>
  \<^verbatim>\<open>    self.stroke_width = convert_to_mm(self.stroke_width)\<close>
  \<^verbatim>\<open>    self.font_size = convert_to_mm(self.font_size)\<close>
\<close>

definition EeFootprintText_convert_to_mm :: "EeFootprintText \<Rightarrow> error + EeFootprintText" where
  "EeFootprintText_convert_to_mm self =
     bind_err (convert_to_mm (PFloat (text_center_x self))) (\<lambda>v. let self = self\<lparr>text_center_x := v\<rparr> in
     bind_err (convert_to_mm (PFloat (text_center_y self))) (\<lambda>v. let self = self\<lparr>text_center_y := v\<rparr> in
     bind_err (convert_to_mm (PFloat (text_stroke_width self))) (\<lambda>v. let self = self\<lparr>text_stroke_width := v\<rparr> in
     bind_err (convert_to_mm (PFloat (text_font_size self))) (\<lambda>v. let self = self\<lparr>text_font_size := v\<rparr> in
     Inr self))))"

record EeFootprintInfo =
  finfo_name :: string
  finfo_fp_type :: string
  finfo_model_3d_name :: string

subsection \<open>3D model\<close>

record Ee3dModelBase =
  m3b_x :: pyfloat
  m3b_y :: pyfloat
  m3b_z :: pyfloat

text \<open>
  \<^verbatim>\<open>Ee3dModelBase.convert_to_mm:\<close>
  \<^verbatim>\<open>    self.x = convert_to_mm(self.x)\<close>
  \<^verbatim>\<open>    self.y = convert_to_mm(self.y)\<close>
  \<^verbatim>\<open>    # self.z = convert_to_mm(self.z)\<close>
\<close>

definition Ee3dModelBase_convert_to_mm :: "Ee3dModelBase \<Rightarrow> error + Ee3dModelBase" where
  "Ee3dModelBase_convert_to_mm self =
     bind_err (convert_to_mm (PFloat (m3b_x self))) (\<lambda>v. let self = self\<lparr>m3b_x := v\<rparr> in
     bind_err (convert_to_mm (PFloat (m3b_y self))) (\<lambda>v. let self = self\<lparr>m3b_y := v\<rparr> in
     Inr self))"

record Ee3dModel =
  m3_name :: string
  m3_uuid :: string
  m3_translation :: Ee3dModelBase
  m3_rotation :: Ee3dModelBase
  m3_raw_obj :: "string option"

text \<open>
  \<^verbatim>\<open>Ee3dModel.convert_to_mm:\<close>
  \<^verbatim>\<open>    self.translation.convert_to_mm()\<close>
  \<^verbatim>\<open>    # self.translation.z = self.translation.z\<close>
\<close>

definition Ee3dModel_convert_to_mm :: "Ee3dModel \<Rightarrow> error + Ee3dModel" where
  "Ee3dModel_convert_to_mm self =
     bind_err (Ee3dModelBase_convert_to_mm (m3_translation self)) (\<lambda>t.
     Inr (self\<lparr>m3_translation := t\<rparr>))"

record ee_footprint =
  fp_info :: EeFootprintInfo
  fp_bbox :: EeFootprintBbox
  fp_model_3d :: Ee3dModel
  fp_pads :: "EeFootprintPad list"
  fp_tracks :: "EeFootprintTrack list"
  fp_holes :: "EeFootprintHole list"
  fp_circles :: "EeFootprintCircle list"
  fp_arcs :: "EeFootprintArc list"
  fp_rectangles :: "EeFootprintRectangle list"
  fp_texts :: "EeFootprintText list"

section \<open>Construction of the validated entities\<close>

text \<open>
  The classes with validators derive from \<^verbatim>\<open>BaseModel\<close> of the library pydantic (its
  version 1, whose \<^verbatim>\<open>validator(..., pre=True)\<close> the source uses), which is not part of
  the repository. A class is constructed from keyword arguments, the raw record. For
  each declared field, in the order of the declaration:
  \<^item> a field that declares no default and whose type does not admit \<^verbatim>\<open>None\<close> is
    required: without a raw value the construction fails;
  \<^item> the validators of the field run on the raw value, before its type is looked at;
    a \<^verbatim>\<open>ValueError\<close> raised by one of them makes the construction fail;
  \<^item> the value \<^verbatim>\<open>None\<close> is then refused, unless the type admits it;
  \<^item> any other value is converted to the declared type.
  A failed construction raises \<^verbatim>\<open>ValidationError\<close>. The library checks every field
  and reports all failures in one error; the model stops at the first field that fails.

  How the library converts a value to \<^verbatim>\<open>float\<close>, \<^verbatim>\<open>int\<close>, \<^verbatim>\<open>str\<close> or \<^verbatim>\<open>bool\<close> (it
  accepts a numeric string for a \<^verbatim>\<open>float\<close>, for example), and which values it refuses,
  is not in the repository. The four conversions are parameters of the model.
\<close>

record conversions =
  to_float :: "pyval \<Rightarrow> error + pyfloat"
  to_int :: "pyval \<Rightarrow> error + int"
  to_str :: "pyval \<Rightarrow> error + string"
  to_bool :: "pyval \<Rightarrow> error + bool"

text \<open>
  The conversions that take a value of the declared type as it is and refuse every other
  value. The library takes a value of the declared type as it is, too, and converts
  more; the closed examples below use values of the declared types only.
\<close>

definition declared_types_only :: conversions where
  "declared_types_only =
     \<lparr>to_float = (\<lambda>v. case v of PFloat f \<Rightarrow> Inr f | _ \<Rightarrow> Inl ValidationError),
      to_int = (\<lambda>v. case v of PInt n \<Rightarrow> Inr n | _ \<Rightarrow> Inl ValidationError),
      to_str = (\<lambda>v. case v of PStr s \<Rightarrow> Inr s | _ \<Rightarrow> Inl ValidationError),
      to_bool = (\<lambda>v. case v of PBool b \<Rightarrow> Inr b | _ \<Rightarrow> Inl ValidationError)\<rparr>"

text \<open>The validators of one field, run in order on the raw value.\<close>

fun run_validators :: "(pyval \<Rightarrow> error + pyval) list \<Rightarrow> pyval \<Rightarrow> error + pyval" where
  "run_validators [] v = Inr v"
| "run_validators (f # fs) v = bind_err (f v) (run_validators fs)"


text \<open>A required field: its conversion, its validators, its raw value if there is one.\<close>

definition required ::
  "(pyval \<Rightarrow> error + 'a) \<Rightarrow> (pyval \<Rightarrow> error + pyval) list \<Rightarrow> pyval option \<Rightarrow> error + 'a" where
  "required conv validators raw =
     (case raw of
        None \<Rightarrow> Inl ValidationError
      | Some v \<Rightarrow>
          (case run_validators validators v of
             Inl e \<Rightarrow> Inl ValidationError
           | Inr w \<Rightarrow> if w = PNone then Inl ValidationError else conv w))"












section \<open>The operations of the layer on constructed entities\<close>

text \<open>
  After construction the source offers one kind of operation: the \<^verbatim>\<open>convert_to_mm\<close>
  methods. \<open>op\<close> lists every one of them, applied to an entity of a footprint (a list
  element is named by its index) or of its 3D model. The classes of the symbol family
  define no method but validators, which run at construction only.
\<close>

datatype op =
    Bbox_convert_to_mm
  | Pad_convert_to_mm nat
  | Track_convert_to_mm nat
  | Hole_convert_to_mm nat
  | Circle_convert_to_mm nat
  | Rectangle_convert_to_mm nat
  | Text_convert_to_mm nat
  | Model_convert_to_mm
  | Translation_convert_to_mm
  | Rotation_convert_to_mm

text \<open>The state: one symbol and one footprint.\<close>

record layer =
  symbol :: EeSymbol
  footprint :: ee_footprint

text \<open>\<^verbatim>\<open>xs[i].m()\<close> for a mutator \<open>m\<close>: \<^verbatim>\<open>IndexError\<close> when there is no such element.\<close>

definition call_at :: "nat \<Rightarrow> ('a \<Rightarrow> error + 'a) \<Rightarrow> 'a list \<Rightarrow> error + 'a list" where
  "call_at i m xs =
     (if i < length xs then bind_err (m (xs ! i)) (\<lambda>x. Inr (xs[i := x]))
      else Inl IndexError)"

fun fp_step :: "op \<Rightarrow> ee_footprint \<Rightarrow> error + ee_footprint" where
  "fp_step Bbox_convert_to_mm fp =
     bind_err (EeFootprintBbox_convert_to_mm (fp_bbox fp)) (\<lambda>b. Inr (fp\<lparr>fp_bbox := b\<rparr>))"
| "fp_step (Pad_convert_to_mm i) fp =
     bind_err (call_at i EeFootprintPad_convert_to_mm (fp_pads fp)) (\<lambda>xs. Inr (fp\<lparr>fp_pads := xs\<rparr>))"
| "fp_step (Track_convert_to_mm i) fp =
     bind_err (call_at i EeFootprintTrack_convert_to_mm (fp_tracks fp)) (\<lambda>xs. Inr (fp\<lparr>fp_tracks := xs\<rparr>))"
| "fp_step (Hole_convert_to_mm i) fp =
     bind_err (call_at i EeFootprintHole_convert_to_mm (fp_holes fp)) (\<lambda>xs. Inr (fp\<lparr>fp_holes := xs\<rparr>))"
| "fp_step (Circle_convert_to_mm i) fp =
     bind_err (call_at i EeFootprintCircle_convert_to_mm (fp_circles fp)) (\<lambda>xs. Inr (fp\<lparr>fp_circles := xs\<rparr>))"
| "fp_step (Rectangle_convert_to_mm i) fp =
     bind_err (call_at i EeFootprintRectangle_convert_to_mm (fp_rectangles fp)) (\<lambda>xs. Inr (fp\<lparr>fp_rectangles := xs\<rparr>))"
| "fp_step (Text_convert_to_mm i) fp =
     bind_err (call_at i EeFootprintText_convert_to_mm (fp_texts fp)) (\<lambda>xs. Inr (fp\<lparr>fp_texts := xs\<rparr>))"
| "fp_step Model_convert_to_mm fp =
     bind_err (Ee3dModel_convert_to_mm (fp_model_3d fp)) (\<lambda>m. Inr (fp\<lparr>fp_model_3d := m\<rparr>))"
| "fp_step Translation_convert_to_mm fp =
     bind_err (Ee3dModelBase_convert_to_mm (m3_translation (fp_model_3d fp)))
       (\<lambda>t. Inr (fp\<lparr>fp_model_3d := (fp_model_3d fp)\<lparr>m3_translation := t\<rparr>\<rparr>))"
| "fp_step Rotation_convert_to_mm fp =
     bind_err (Ee3dModelBase_convert_to_mm (m3_rotation (fp_model_3d fp)))
       (\<lambda>t. Inr (fp\<lparr>fp_model_3d := (fp_model_3d fp)\<lparr>m3_rotation := t\<rparr>\<rparr>))"

text \<open>One operation on the state. An operation that raises leaves the state as it was.\<close>

definition step :: "op \<Rightarrow> layer \<Rightarrow> layer" where
  "step c s =
     (case fp_step c (footprint s) of
        Inl e \<Rightarrow> s
      | Inr fp \<Rightarrow> s\<lparr>footprint := fp\<rparr>)"

text \<open>A sequence of operations, from the left.\<close>

fun run :: "op list \<Rightarrow> layer \<Rightarrow> layer" where
  "run [] s = s"
| "run (c # cs) s = run cs (step c s)"

section \<open>Properties of the rounding\<close>

lemma flog2_bounds: "0 < q \<Longrightarrow> 2 powi (flog2 q) \<le> q \<and> q < 2 powi (flog2 q + 1)"
proof (induction q rule: flog2.induct)
  case (1 q)
  show ?case
  proof (cases "2 \<le> q")
    case True
    with "1.IH"(1) "1.prems" have "2 powi (flog2 (q / 2)) \<le> q / 2 \<and> q / 2 < 2 powi (flog2 (q / 2) + 1)"
      by simp
    with True "1.prems" show ?thesis
      by (simp add: flog2.simps [of q] power_int_add field_simps)
  next
    case False
    show ?thesis
    proof (cases "q < 1")
      case True
      with "1.IH"(2) "1.prems" False
      have "2 powi (flog2 (q * 2)) \<le> q * 2 \<and> q * 2 < 2 powi (flog2 (q * 2) + 1)"
        by simp
      with True False "1.prems" show ?thesis
        by (simp add: flog2.simps [of q] power_int_add power_int_diff field_simps)
    next
      case ge1: False
      with False "1.prems" show ?thesis
        by (simp add: flog2.simps [of q])
    qed
  qed
qed

lemma two_powi_less_imp_less:
  fixes a b :: int
  assumes "(2::rat) powi a < 2 powi b"
  shows "a < b"
proof (rule ccontr)
  assume "\<not> a < b"
  then have "(2::rat) powi b \<le> 2 powi a"
    by (intro power_int_increasing) simp_all
  with assms show False by simp
qed

lemma flog2_unique:
  assumes "2 powi k \<le> q" "q < 2 powi (k + 1)"
  shows "flog2 q = k"
proof -
  have "(0::rat) < 2 powi k" by simp
  with assms(1) have "0 < q" by linarith
  then have b: "2 powi (flog2 q) \<le> q" "q < 2 powi (flog2 q + 1)"
    using flog2_bounds by simp_all
  from b(1) assms(2) have "(2::rat) powi (flog2 q) < 2 powi (k + 1)" by linarith
  then have "flog2 q < k + 1" by (rule two_powi_less_imp_less)
  moreover from assms(1) b(2) have "(2::rat) powi k < 2 powi (flog2 q + 1)" by linarith
  then have "k < flog2 q + 1" by (rule two_powi_less_imp_less)
  ultimately show ?thesis by simp
qed

lemma round_half_even_unique:
  assumes "\<bar>y - of_int m\<bar> < 1 / 2"
  shows "round_half_even y = m"
proof (cases "of_int m \<le> y")
  case True
  with assms have "\<lfloor>y\<rfloor> = m" by (intro floor_unique) linarith+
  with assms True show ?thesis by (simp add: round_half_even_def Let_def)
next
  case False
  with assms have "\<lfloor>y\<rfloor> = m - 1" by (intro floor_unique) (simp, linarith)+
  with assms False show ?thesis by (auto simp: round_half_even_def Let_def)
qed

lemma floor_numeral_div_numeral:
  "\<lfloor>numeral a / numeral b :: rat\<rfloor> = numeral a div numeral b"
  using floor_divide_of_int_eq [of "numeral a" "numeral b", where ?'a = rat] by simp

lemma round_half_even_err: "\<bar>of_int (round_half_even y) - y\<bar> \<le> 1 / 2"
proof -
  have "of_int \<lfloor>y\<rfloor> \<le> y" "y < of_int \<lfloor>y\<rfloor> + 1"
    by linarith+
  then show ?thesis
    by (auto simp: round_half_even_def Let_def)
qed

text \<open>A certificate for one rounding: the binary exponent \<open>k\<close> and the mantissa \<open>m\<close>.\<close>

lemma round_binary64_cert:
  assumes k: "2 powi k \<le> q" "q < 2 powi (k + 1)"
    and range: "- 1022 \<le> k" "k \<le> 1022"
    and rh: "round_half_even (q / 2 powi (k - 52)) = m"
    and r: "r = of_int m * 2 powi (k - 52)"
  shows "round_binary64 q = Fin r"
proof -
  have "(0::rat) < 2 powi k" by simp
  with k(1) have qpos: "0 < q" by linarith
  have f: "flog2 q = k" using k by (rule flog2_unique)
  have e: "max (k - 52) (- 1074) = k - 52" using range by simp
  have m: "\<bar>rat_of_int m - q / 2 powi (k - 52)\<bar> \<le> 1 / 2"
    using round_half_even_err [of "q / 2 powi (k - 52)"] by (simp only: rh)
  have "(2::rat) powi k = 2 powi (k - 52) * 2 ^ 52"
    by (simp add: power_int_diff)
  with k(1) have "2 ^ 52 \<le> q / 2 powi (k - 52)"
    by (simp add: field_simps)
  with m have mpos: "0 < m" by (simp, linarith)
  have "q / 2 powi (k - 52) < 2 ^ 53"
    using k(2) by (simp add: power_int_add power_int_diff field_simps)
  with m have "rat_of_int m < 2 ^ 53 + 1" by linarith
  then have "rat_of_int m < rat_of_int (2 ^ 53 + 1)" by simp
  then have "m < 2 ^ 53 + 1" by (simp only: of_int_less_iff)
  then have "m \<le> 2 ^ 53" by simp
  then have "rat_of_int m \<le> rat_of_int (2 ^ 53)" by (simp only: of_int_le_iff)
  then have "rat_of_int m \<le> 2 ^ 53" by simp
  then have "r \<le> 2 ^ 53 * 2 powi (k - 52)"
    unfolding r by (intro mult_right_mono) simp_all
  also have "\<dots> = 2 powi (k + 1)"
    by (simp add: power_int_add power_int_diff)
  also have "\<dots> \<le> 2 powi 1023"
    using range by (intro power_int_increasing) simp_all
  finally have "r < 2 ^ 1024" by simp
  with qpos mpos show ?thesis
    by (simp add: round_binary64_def f e rh Let_def r [symmetric])
qed

lemma fmul_Fin:
  "a \<noteq> 0 \<Longrightarrow> b \<noteq> 0 \<Longrightarrow> fmul (Fin a) (Fin b) = round_binary64 (a * b)"
  by (simp add: fmul_def)

lemma fmul_cert:
  assumes "a \<noteq> 0" "b \<noteq> 0"
    and "2 powi k \<le> a * b" "a * b < 2 powi (k + 1)"
    and "- 1022 \<le> k" "k \<le> 1022"
    and "round_half_even (a * b / 2 powi (k - 52)) = m"
    and "r = of_int m * 2 powi (k - 52)"
  shows "fmul (Fin a) (Fin b) = Fin r"
proof -
  have "fmul (Fin a) (Fin b) = round_binary64 (a * b)"
    using assms(1,2) by (rule fmul_Fin)
  also have "\<dots> = Fin r"
    using assms(3-8) by (rule round_binary64_cert)
  finally show ?thesis .
qed


lemma flog2_less:
  assumes "0 < q" "q < 2 ^ n"
  shows "flog2 q < int n"
proof -
  have "2 powi (flog2 q) \<le> q"
    using flog2_bounds [OF assms(1)] by simp
  also have "q < 2 powi (int n)"
    using assms(2) by simp
  finally show ?thesis
    by (rule two_powi_less_imp_less)
qed

lemma round_binary64_err:
  assumes "\<bar>q\<bar> < 2 ^ 1023"
  shows "is_finite (round_binary64 q) \<and>
         \<bar>fval (round_binary64 q) - q\<bar> \<le> max (\<bar>q\<bar> / 2 ^ 53) (1 / 2 ^ 1075)"
proof (cases "q = 0")
  case True
  then show ?thesis by (simp add: round_binary64_def)
next
  case False
  define a where "a = \<bar>q\<bar>"
  define e where "e = max (flog2 a - 52) (- 1074)"
  define m where "m = round_half_even (a / 2 powi e)"
  define r where "r = rat_of_int m * 2 powi e"
  have apos: "0 < a" using False by (simp add: a_def)
  have fl: "2 powi (flog2 a) \<le> a" using flog2_bounds [OF apos] by simp
  have "flog2 a < int 1023"
    using apos assms unfolding a_def by (intro flog2_less) simp_all
  then have e_le: "e \<le> 970" by (simp add: e_def)
  have pe: "0 < (2::rat) powi e" by simp
  have "\<bar>rat_of_int m - a / 2 powi e\<bar> \<le> 1 / 2"
    unfolding m_def by (rule round_half_even_err)
  then have "\<bar>rat_of_int m - a / 2 powi e\<bar> * 2 powi e \<le> 1 / 2 * 2 powi e"
    using pe by (intro mult_right_mono) simp_all
  also have "\<bar>rat_of_int m - a / 2 powi e\<bar> * 2 powi e = \<bar>(rat_of_int m - a / 2 powi e) * 2 powi e\<bar>"
    using pe by (intro abs_mult_pos) simp
  also have "(rat_of_int m - a / 2 powi e) * 2 powi e = r - a"
    using pe by (simp add: r_def left_diff_distrib)
  finally have err: "\<bar>r - a\<bar> \<le> 2 powi e / 2" by simp
  have half: "2 powi e / 2 \<le> max (a / 2 ^ 53) (1 / 2 ^ 1075)"
  proof (cases "flog2 a - 52 \<le> - 1074")
    case True
    then have "e = - 1074" by (simp add: e_def)
    then show ?thesis by (simp add: power_int_minus_divide)
  next
    case False
    then have "e = flog2 a - 52" by (simp add: e_def)
    then have "(2::rat) powi e = 2 powi (flog2 a) / 2 ^ 52"
      by (simp add: power_int_diff)
    with fl have "2 powi e / 2 \<le> a / 2 ^ 53" by simp
    then show ?thesis by simp
  qed
  have "(2::rat) powi e \<le> 2 powi 970"
    using e_le by (intro power_int_increasing) simp_all
  then have "r < 2 ^ 1024"
    using err assms unfolding a_def [symmetric] by (simp, linarith)
  moreover have "m = 0 \<Longrightarrow> r = 0" by (simp add: r_def)
  ultimately have fin: "is_finite (round_binary64 q)"
    and val: "fval (round_binary64 q) = (if q < 0 then - r else r)"
    using False
    by (simp_all add: round_binary64_def Let_def a_def [symmetric] e_def [symmetric]
                      m_def [symmetric] r_def [symmetric])
  have "\<bar>fval (round_binary64 q) - q\<bar> = \<bar>r - a\<bar>"
    unfolding val a_def by (cases "q < 0") simp_all
  with err half fin show ?thesis
    unfolding a_def [symmetric] by simp
qed

text \<open>The same bound with a sum in place of the maximum, for use in linear arithmetic.\<close>

lemma round_binary64_err_sum:
  assumes "\<bar>q\<bar> < 2 ^ 1023"
  shows "is_finite (round_binary64 q)"
    and "\<bar>fval (round_binary64 q) - q\<bar> \<le> \<bar>q\<bar> / 2 ^ 53 + 1 / 2 ^ 1075"
proof -
  have "max (\<bar>q\<bar> / 2 ^ 53) (1 / 2 ^ 1075) \<le> \<bar>q\<bar> / 2 ^ 53 + 1 / 2 ^ 1075"
    by simp
  with round_binary64_err [OF assms]
  show "is_finite (round_binary64 q)"
    and "\<bar>fval (round_binary64 q) - q\<bar> \<le> \<bar>q\<bar> / 2 ^ 53 + 1 / 2 ^ 1075"
    by linarith+
qed

lemma fmul_err:
  assumes "is_finite a" "is_finite b" "\<bar>fval a * fval b\<bar> < 2 ^ 1023"
  shows "is_finite (fmul a b)"
    and "\<bar>fval (fmul a b) - fval a * fval b\<bar> \<le> \<bar>fval a * fval b\<bar> / 2 ^ 53 + 1 / 2 ^ 1075"
proof -
  have "is_finite (fmul a b) \<and>
        \<bar>fval (fmul a b) - fval a * fval b\<bar> \<le> \<bar>fval a * fval b\<bar> / 2 ^ 53 + 1 / 2 ^ 1075"
  proof (cases "is_zero a \<or> is_zero b")
    case True
    then have z: "fval a * fval b = 0"
      by (cases a; cases b) auto
    from True assms(1,2) have fin: "is_finite (fmul a b)" and v: "fval (fmul a b) = 0"
      by (cases a; cases b; auto simp: fmul_def)+
    show ?thesis unfolding v z using fin by simp
  next
    case False
    with assms(1,2) have "fmul a b = round_binary64 (fval a * fval b)"
      by (cases a; cases b) (auto simp: fmul_def)
    with round_binary64_err_sum [OF assms(3)] show ?thesis by simp
  qed
  then show "is_finite (fmul a b)"
    and "\<bar>fval (fmul a b) - fval a * fval b\<bar> \<le> \<bar>fval a * fval b\<bar> / 2 ^ 53 + 1 / 2 ^ 1075"
    by simp_all
qed

section \<open>Strings of decimal digits\<close>

lemma digit_not_special:
  assumes "is_digit c"
  shows "\<not> is_space c" "c \<noteq> CHR ''_''" "c \<noteq> CHR ''-''" "c \<noteq> CHR ''+''" "c \<noteq> CHR ''p''"
    "c \<noteq> CHR ''i''" "c \<noteq> CHR ''n''"
  using assms by (auto simp: is_digit_def is_space_def)

lemma digit_lower: "is_digit c \<Longrightarrow> ascii_lower (c # cs) = c # ascii_lower cs"
  by (auto simp: is_digit_def ascii_lower_def)

lemma strip_digits:
  assumes "ds \<noteq> []" "list_all is_digit ds"
  shows "strip ds = ds"
proof -
  from assms have "is_digit (hd ds)" "is_digit (last ds)"
    by (simp_all add: list_all_iff)
  then have h: "\<not> is_space (hd ds)" "\<not> is_space (hd (rev ds))"
    using assms(1) by (simp_all add: digit_not_special hd_rev)
  then have "dropWhile is_space ds = ds" "dropWhile is_space (rev ds) = rev ds"
    by (simp_all add: dropWhile_eq_self_iff)
  then show ?thesis by (simp add: strip_def)
qed

lemma del_underscores_digits:
  "list_all is_digit ds \<Longrightarrow> prev \<noteq> CHR ''_'' \<Longrightarrow> del_underscores prev ds = Some ds"
  by (induction ds arbitrary: prev) (simp_all add: digit_not_special)

lemma split_sign_digits:
  "list_all is_digit ds \<Longrightarrow> split_sign ds = (False, ds)"
  by (cases ds) (simp_all add: digit_not_special)

lemma parse_decimal_digits:
  assumes "ds \<noteq> []" "list_all is_digit ds"
  shows "parse_decimal ds = Some (of_nat (nat_of_digits ds))"
proof -
  from assms(2) have tw: "takeWhile is_digit ds = ds" and dw: "dropWhile is_digit ds = []"
    by (simp_all add: list_all_iff)
  show ?thesis
    unfolding parse_decimal_def tw dw using assms(1) by (simp add: Let_def)
qed

lemma float_of_string_digits:
  assumes "ds \<noteq> []" "list_all is_digit ds"
  shows "float_of_string ds = Inr (round_binary64 (of_nat (nat_of_digits ds)))"
proof -
  obtain d ds' where ds: "ds = d # ds'" using assms(1) by (cases ds) auto
  with assms(2) have d: "is_digit d" by simp
  have "ascii_lower ds \<noteq> ''inf''" "ascii_lower ds \<noteq> ''infinity''" "ascii_lower ds \<noteq> ''nan''"
    using d by (auto simp: ds digit_lower digit_not_special)
  then show ?thesis
    using assms
    by (simp add: float_of_string_def strip_digits del_underscores_digits split_sign_digits
          parse_decimal_digits round_binary64_def)
qed

lemma replace_pt_digits:
  "list_all is_digit ds \<Longrightarrow> replace ''pt'' [] (ds @ ''pt'') = ds"
proof (induction ds)
  case Nil
  show ?case
    by (simp add: replace.simps [of "''pt''" "[]" "''pt''"] replace.simps [of "''pt''" "[]" "[]"])
next
  case (Cons d ds)
  then have "d \<noteq> CHR ''p''" by (simp add: digit_not_special)
  with Cons show ?case
    by (simp add: replace.simps [of "''pt''" "[]" "d # ds @ ''pt''"])
qed

lemma contains_append: "contains sub (xs @ sub)"
proof (induction xs)
  case Nil
  have "starts_with sub sub" by (induction sub) simp_all
  then show ?case by (cases sub) simp_all
next
  case (Cons x xs)
  then show ?case by simp
qed

section \<open>The conversion at sample points\<close>

text \<open>
  Each rounding is certified by its binary exponent and its 53-bit mantissa.
\<close>

lemma float_lit_254_4: "float_lit 254 4 = Fin (3660525777126739 / 144115188075855872)"
  unfolding float_lit_def
  by (rule round_binary64_cert [where k = "- 6" and m = 7321051554253478]) (simp_all add: round_half_even_def Let_def floor_numeral_div_numeral)

lemma float_lit_254_3: "float_lit 254 3 = Fin (571957152676053 / 2251799813685248)"
  unfolding float_lit_def
  by (rule round_binary64_cert [where k = "- 2" and m = 4575657221408424]) (simp_all add: round_half_even_def Let_def floor_numeral_div_numeral)

lemma float_lit_254_1: "float_lit 254 1 = Fin (3574732204225331 / 140737488355328)"
  unfolding float_lit_def
  by (rule round_binary64_cert [where k = 4 and m = 7149464408450662]) (simp_all add: round_half_even_def Let_def floor_numeral_div_numeral)

lemma float_lit_254_2: "float_lit 254 2 = Fin (2859785763380265 / 1125899906842624)"
  unfolding float_lit_def
  by (rule round_binary64_cert [where k = 1 and m = 5719571526760530]) (simp_all add: round_half_even_def Let_def floor_numeral_div_numeral)

lemma float_lit_508_2: "float_lit 508 2 = Fin (2859785763380265 / 562949953421312)"
  unfolding float_lit_def
  by (rule round_binary64_cert [where k = 2 and m = 5719571526760530]) (simp_all add: round_half_even_def Let_def floor_numeral_div_numeral)

lemma fmul_19_10: "fmul (Fin 19) (Fin 10) = Fin 190"
  by (rule fmul_cert [where k = 7 and m = 6685030696878080]) (simp_all add: round_half_even_def Let_def floor_numeral_div_numeral)

lemma fmul_190_lit: "fmul (Fin 190) (Fin (3660525777126739 / 144115188075855872)) = Fin (5433592950422503 / 1125899906842624)"
  by (rule fmul_cert [where k = 2 and m = 5433592950422503]) (simp_all add: round_half_even_def Let_def floor_numeral_div_numeral)

lemma fmul_10_10: "fmul (Fin 10) (Fin 10) = Fin 100"
  by (rule fmul_cert [where k = 6 and m = 7036874417766400]) (simp_all add: round_half_even_def Let_def floor_numeral_div_numeral)

lemma fmul_100_lit: "fmul (Fin 100) (Fin (3660525777126739 / 144115188075855872)) = Fin (2859785763380265 / 1125899906842624)"
  by (rule fmul_cert [where k = 1 and m = 5719571526760530]) (simp_all add: round_half_even_def Let_def floor_numeral_div_numeral)

lemma fmul_20_10: "fmul (Fin 20) (Fin 10) = Fin 200"
  by (rule fmul_cert [where k = 7 and m = 7036874417766400]) (simp_all add: round_half_even_def Let_def floor_numeral_div_numeral)

lemma fmul_200_lit: "fmul (Fin 200) (Fin (3660525777126739 / 144115188075855872)) = Fin (2859785763380265 / 562949953421312)"
  by (rule fmul_cert [where k = 2 and m = 5719571526760530]) (simp_all add: round_half_even_def Let_def floor_numeral_div_numeral)

lemma fmul_100_10: "fmul (Fin 100) (Fin 10) = Fin 1000"
  by (rule fmul_cert [where k = 9 and m = 8796093022208000]) (simp_all add: round_half_even_def Let_def floor_numeral_div_numeral)

lemma fmul_1000_lit: "fmul (Fin 1000) (Fin (3660525777126739 / 144115188075855872)) = Fin (3574732204225331 / 140737488355328)"
  by (rule fmul_cert [where k = 4 and m = 7149464408450662]) (simp_all add: round_half_even_def Let_def floor_numeral_div_numeral)

lemma fmul_19_254: "fmul (Fin 19) (Fin (571957152676053 / 2251799813685248)) = Fin (679199118802813 / 140737488355328)"
  by (rule fmul_cert [where k = 2 and m = 5433592950422504]) (simp_all add: round_half_even_def Let_def floor_numeral_div_numeral)

lemma fmul_10_254: "fmul (Fin 10) (Fin (571957152676053 / 2251799813685248)) = Fin (2859785763380265 / 1125899906842624)"
  by (rule fmul_cert [where k = 1 and m = 5719571526760530]) (simp_all add: round_half_even_def Let_def floor_numeral_div_numeral)

lemma fmul_20_254: "fmul (Fin 20) (Fin (571957152676053 / 2251799813685248)) = Fin (2859785763380265 / 562949953421312)"
  by (rule fmul_cert [where k = 2 and m = 5719571526760530]) (simp_all add: round_half_even_def Let_def floor_numeral_div_numeral)

lemma fmul_100_254: "fmul (Fin 100) (Fin (571957152676053 / 2251799813685248)) = Fin (3574732204225331 / 140737488355328)"
  by (rule fmul_cert [where k = 4 and m = 7149464408450662]) (simp_all add: round_half_even_def Let_def floor_numeral_div_numeral)

section \<open>Sequencing and steps\<close>

lemma bind_err_Inr [simp]: "bind_err (Inr x) f = f x"
  by (simp add: bind_err_def)

lemma bind_err_Inl [simp]: "bind_err (Inl e) f = Inl e"
  by (simp add: bind_err_def)

lemma fp_step_arcs: "fp_step c fp = Inr fp' \<Longrightarrow> fp_arcs fp' = fp_arcs fp"
  by (cases c) (auto simp: bind_err_def split: sum.splits)

lemma step_symbol: "symbol (step c s) = symbol s"
  by (simp add: step_def split: sum.splits)

lemma step_arcs: "fp_arcs (footprint (step c s)) = fp_arcs (footprint s)"
  by (auto simp: step_def fp_step_arcs split: sum.splits)

section \<open>Properties of the construction\<close>








lemma required_plain [simp]:
  "required conv [] (Some v) = (if v = PNone then Inl ValidationError else conv v)"
  by (simp add: required_def)

lemma declared_types_only_simps [simp]:
  "to_float declared_types_only (PFloat f) = Inr f"
  "to_int declared_types_only (PInt n) = Inr n"
  "to_str declared_types_only (PStr s) = Inr s"
  "to_bool declared_types_only (PBool b) = Inr b"
  by (simp_all add: declared_types_only_def)





lemma convert_to_mm_Fin:
  "convert_to_mm (PFloat f) = Inr (fmul (fmul f (Fin 10)) (float_lit 254 4))"
  by (simp add: convert_to_mm_def)

lemma convert_to_mm_0: "convert_to_mm (PFloat (Fin 0)) = Inr (Fin 0)"
  by (simp add: convert_to_mm_Fin fmul_def float_lit_254_4)

lemma convert_to_mm_10: "convert_to_mm (PFloat (Fin 10)) = Inr (float_lit 254 2)"
  unfolding float_lit_254_2
  by (simp add: convert_to_mm_Fin float_lit_254_4 fmul_10_10 fmul_100_lit)

lemma convert_to_mm_20: "convert_to_mm (PFloat (Fin 20)) = Inr (float_lit 508 2)"
  unfolding float_lit_508_2
  by (simp add: convert_to_mm_Fin float_lit_254_4 fmul_20_10 fmul_200_lit)

lemma convert_to_mm_100: "convert_to_mm (PFloat (Fin 100)) = Inr (float_lit 254 1)"
  unfolding float_lit_254_1
  by (simp add: convert_to_mm_Fin float_lit_254_4 fmul_100_10 fmul_1000_lit)

text \<open>
  At 0, 10, 20 and 100 the converter returns what the single product \<^verbatim>\<open>x * 0.254\<close>
  returns.
\<close>

lemma convert_to_mm_samples:
  "convert_to_mm (PFloat (Fin 0)) = Inr (fmul (Fin 0) (float_lit 254 3))"
  "convert_to_mm (PFloat (Fin 10)) = Inr (fmul (Fin 10) (float_lit 254 3))"
  "convert_to_mm (PFloat (Fin 20)) = Inr (fmul (Fin 20) (float_lit 254 3))"
  "convert_to_mm (PFloat (Fin 100)) = Inr (fmul (Fin 100) (float_lit 254 3))"
proof -
  show "convert_to_mm (PFloat (Fin 0)) = Inr (fmul (Fin 0) (float_lit 254 3))"
    by (simp add: convert_to_mm_0 float_lit_254_3 fmul_def)
  show "convert_to_mm (PFloat (Fin 10)) = Inr (fmul (Fin 10) (float_lit 254 3))"
    by (simp add: convert_to_mm_Fin float_lit_254_4 fmul_10_10 fmul_100_lit
          float_lit_254_3 fmul_10_254)
  show "convert_to_mm (PFloat (Fin 20)) = Inr (fmul (Fin 20) (float_lit 254 3))"
    by (simp add: convert_to_mm_Fin float_lit_254_4 fmul_20_10 fmul_200_lit
          float_lit_254_3 fmul_20_254)
  show "convert_to_mm (PFloat (Fin 100)) = Inr (fmul (Fin 100) (float_lit 254 3))"
    by (simp add: convert_to_mm_Fin float_lit_254_4 fmul_100_10 fmul_1000_lit
          float_lit_254_3 fmul_100_254)
qed

lemma py_float_numeric:
  assumes "numeric_value v = Some x" "\<bar>x\<bar> < 2 ^ 1023"
  shows "\<exists>f. py_float v = Inr f \<and> is_finite f \<and> \<bar>fval f - x\<bar> \<le> \<bar>x\<bar> / 2 ^ 53 + 1 / 2 ^ 1075"
proof (cases v)
  case (PInt n)
  with assms have x: "x = of_int n" by simp
  from round_binary64_err_sum [of "of_int n"] assms(2) x
  have "is_finite (round_binary64 (of_int n))"
    and "\<bar>fval (round_binary64 (of_int n)) - x\<bar> \<le> \<bar>x\<bar> / 2 ^ 53 + 1 / 2 ^ 1075"
    by simp_all
  moreover from this(1) have "\<not> is_inf (round_binary64 (of_int n))"
    by (cases "round_binary64 (rat_of_int n)") simp_all
  ultimately show ?thesis using PInt by simp
next
  case (PFloat f)
  with assms show ?thesis by (simp split: if_splits)
qed (use assms in \<open>auto split: if_splits\<close>)

section \<open>The claims\<close>

text \<open>
  C1 (corrected). The claim: for every finite numeric \<open>x\<close>,
  \<^verbatim>\<open>convert_to_mm(x) == x * 10 * 0.0254 == x * 0.254\<close>.

  The second equation fails in float arithmetic. At \<open>x = 19\<close> the converter returns
  4.826 (the float 5433592950422503 / 2 ^ 50), the product \<^verbatim>\<open>19 * 0.254\<close> is
  4.8260000000000005 (the float 5433592950422504 / 2 ^ 50), one unit in the last place
  above it.
\<close>

theorem convert_to_mm_19_counterexample:
  "convert_to_mm (PFloat (Fin 19)) = Inr (Fin (5433592950422503 / 1125899906842624)) \<and>
   fmul (Fin 19) (float_lit 254 3) = Fin (679199118802813 / 140737488355328) \<and>
   \<not> feq (Fin (5433592950422503 / 1125899906842624)) (Fin (679199118802813 / 140737488355328))"
  by (simp add: convert_to_mm_Fin float_lit_254_4 float_lit_254_3 fmul_19_10 fmul_190_lit
        fmul_19_254 feq_def)

text \<open>
  C1 as amended: for every finite numeric \<open>x\<close> with \<open>\<bar>x\<bar> \<le> 2 ^ 1000\<close> the converter
  returns a finite float, the product \<^verbatim>\<open>float(x) * 10 * 0.0254\<close> rounded after each
  step, and this float differs from the exact product of \<open>x\<close> and 0.254 by at most
  \<open>\<bar>x\<bar> / 2 ^ 52 + 1 / 2 ^ 1073\<close>.
\<close>

theorem convert_to_mm_rounding:
  assumes nv: "numeric_value v = Some x" and bound: "\<bar>x\<bar> \<le> 2 ^ 1000"
  shows "\<exists>f. convert_to_mm v = Inr f \<and> is_finite f \<and>
             \<bar>fval f - x * (254 / 1000)\<bar> \<le> \<bar>x\<bar> / 2 ^ 52 + 1 / 2 ^ 1073"
proof -
  define eta :: rat where "eta = 1 / 2 ^ 1075"
  define B :: rat where "B = 2 ^ 1000"
  define c :: rat where "c = 3660525777126739 / 144115188075855872"
  have eta: "0 < eta" "eta \<le> 1" by (simp_all add: eta_def)
  have B: "1 \<le> B" "B * 8388608 = 2 ^ 1023" by (simp_all add: B_def)
  have xB: "\<bar>x\<bar> \<le> B" using bound by (simp add: B_def)
  have "\<bar>x\<bar> < B * 8388608" using xB B(1) by linarith
  then have "\<bar>x\<bar> < 2 ^ 1023" by (simp only: B(2))
  from py_float_numeric [OF nv this]
  obtain x0 where x0: "py_float v = Inr x0" "is_finite x0"
    and e0: "\<bar>fval x0 - x\<bar> \<le> \<bar>x\<bar> / 2 ^ 53 + eta"
    unfolding eta_def by blast
  define a where "a = fmul x0 (Fin 10)"
  have "\<bar>fval x0 * fval (Fin 10)\<bar> < B * 8388608"
    using e0 xB B(1) eta by (simp; linarith)
  then have "\<bar>fval x0 * fval (Fin 10)\<bar> < 2 ^ 1023" by (simp only: B(2))
  from fmul_err [OF x0(2) _ this]
  have a: "is_finite a" and e1: "\<bar>fval a - fval x0 * 10\<bar> \<le> \<bar>fval x0 * 10\<bar> / 2 ^ 53 + eta"
    unfolding a_def eta_def by simp_all
  define r where "r = fmul a (Fin c)"
  have "\<bar>fval a * fval (Fin c)\<bar> < B * 8388608"
    using e0 e1 xB B(1) eta by (simp add: c_def abs_mult; linarith)
  then have "\<bar>fval a * fval (Fin c)\<bar> < 2 ^ 1023" by (simp only: B(2))
  from fmul_err [OF a _ this]
  have r: "is_finite r" and e2: "\<bar>fval r - fval a * c\<bar> \<le> \<bar>fval a * c\<bar> / 2 ^ 53 + eta"
    unfolding r_def eta_def by simp_all
  have "convert_to_mm v = Inr r"
    by (simp add: convert_to_mm_def x0(1) r_def a_def float_lit_254_4 c_def)
  moreover have "\<bar>fval r - x * (254 / 1000)\<bar> \<le> \<bar>x\<bar> / 2 ^ 52 + 4 * eta"
    using e0 e1 e2 eta by (simp add: c_def abs_mult; linarith)
  moreover have "4 * eta = 1 / 2 ^ 1073" by (simp add: eta_def)
  ultimately show ?thesis using r by auto
qed

theorem convert_to_mm_rounding_witness:
  "numeric_value (PInt 19) = Some 19 \<and> \<bar>19 :: rat\<bar> \<le> 2 ^ 1000 \<and>
   (\<exists>f. convert_to_mm (PInt 19) = Inr f \<and> is_finite f \<and>
        \<bar>fval f - 19 * (254 / 1000)\<bar> \<le> \<bar>19\<bar> / 2 ^ 52 + 1 / 2 ^ 1073)"
proof -
  have h1: "numeric_value (PInt 19) = Some 19" by simp
  have h2: "\<bar>19 :: rat\<bar> \<le> 2 ^ 1000" by simp
  from convert_to_mm_rounding [OF h1 h2] h1 h2 show ?thesis by (intro conjI)
qed

text \<open>
  C2 (confirmed). One call of the pad's \<^verbatim>\<open>convert_to_mm\<close> returns without an error; it
  replaces each of the six fields \<open>center_x\<close>, \<open>center_y\<close>, \<open>width\<close>, \<open>height\<close>,
  \<open>hole_radius\<close> and \<open>hole_length\<close> by what the unit converter returns for it (the
  factor 0.254 of C1), and leaves the ten other fields as they were. A pad with centre
  (100, 100), width and height 10 and hole radius and length 0 gets the centre
  (25.4, 25.4), width and height 2.54 and hole radius and length 0.0, whatever the
  other fields hold.
\<close>

theorem EeFootprintPad_convert_to_mm_fields:
  "(\<exists>p'. EeFootprintPad_convert_to_mm p = Inr p' \<and>
      convert_to_mm (PFloat (pad_center_x p)) = Inr (pad_center_x p') \<and>
      convert_to_mm (PFloat (pad_center_y p)) = Inr (pad_center_y p') \<and>
      convert_to_mm (PFloat (pad_width p)) = Inr (pad_width p') \<and>
      convert_to_mm (PFloat (pad_height p)) = Inr (pad_height p') \<and>
      convert_to_mm (PFloat (pad_hole_radius p)) = Inr (pad_hole_radius p') \<and>
      convert_to_mm (PFloat (pad_hole_length p)) = Inr (pad_hole_length p') \<and>
      pad_shape p' = pad_shape p \<and> pad_layer_id p' = pad_layer_id p \<and>
      pad_net p' = pad_net p \<and> pad_number p' = pad_number p \<and>
      pad_points p' = pad_points p \<and> pad_rotation p' = pad_rotation p \<and>
      pad_id p' = pad_id p \<and> pad_hole_point p' = pad_hole_point p \<and>
      pad_is_plated p' = pad_is_plated p \<and> pad_is_locked p' = pad_is_locked p) \<and>
   EeFootprintPad_convert_to_mm
     \<lparr>pad_shape = shape, pad_center_x = Fin 100, pad_center_y = Fin 100, pad_width = Fin 10,
      pad_height = Fin 10, pad_layer_id = layer_id, pad_net = net, pad_number = number,
      pad_hole_radius = Fin 0, pad_points = points, pad_rotation = rotation, pad_id = ident,
      pad_hole_length = Fin 0, pad_hole_point = hole_point, pad_is_plated = is_plated,
      pad_is_locked = is_locked\<rparr> =
   Inr \<lparr>pad_shape = shape, pad_center_x = float_lit 254 1, pad_center_y = float_lit 254 1,
        pad_width = float_lit 254 2, pad_height = float_lit 254 2, pad_layer_id = layer_id,
        pad_net = net, pad_number = number, pad_hole_radius = Fin 0, pad_points = points,
        pad_rotation = rotation, pad_id = ident, pad_hole_length = Fin 0,
        pad_hole_point = hole_point, pad_is_plated = is_plated, pad_is_locked = is_locked\<rparr>"
proof (rule conjI)
  show "\<exists>p'. EeFootprintPad_convert_to_mm p = Inr p' \<and>
      convert_to_mm (PFloat (pad_center_x p)) = Inr (pad_center_x p') \<and>
      convert_to_mm (PFloat (pad_center_y p)) = Inr (pad_center_y p') \<and>
      convert_to_mm (PFloat (pad_width p)) = Inr (pad_width p') \<and>
      convert_to_mm (PFloat (pad_height p)) = Inr (pad_height p') \<and>
      convert_to_mm (PFloat (pad_hole_radius p)) = Inr (pad_hole_radius p') \<and>
      convert_to_mm (PFloat (pad_hole_length p)) = Inr (pad_hole_length p') \<and>
      pad_shape p' = pad_shape p \<and> pad_layer_id p' = pad_layer_id p \<and>
      pad_net p' = pad_net p \<and> pad_number p' = pad_number p \<and>
      pad_points p' = pad_points p \<and> pad_rotation p' = pad_rotation p \<and>
      pad_id p' = pad_id p \<and> pad_hole_point p' = pad_hole_point p \<and>
      pad_is_plated p' = pad_is_plated p \<and> pad_is_locked p' = pad_is_locked p"
    by (simp add: EeFootprintPad_convert_to_mm_def convert_to_mm_Fin Let_def)
next
  show "EeFootprintPad_convert_to_mm
     \<lparr>pad_shape = shape, pad_center_x = Fin 100, pad_center_y = Fin 100, pad_width = Fin 10,
      pad_height = Fin 10, pad_layer_id = layer_id, pad_net = net, pad_number = number,
      pad_hole_radius = Fin 0, pad_points = points, pad_rotation = rotation, pad_id = ident,
      pad_hole_length = Fin 0, pad_hole_point = hole_point, pad_is_plated = is_plated,
      pad_is_locked = is_locked\<rparr> =
   Inr \<lparr>pad_shape = shape, pad_center_x = float_lit 254 1, pad_center_y = float_lit 254 1,
        pad_width = float_lit 254 2, pad_height = float_lit 254 2, pad_layer_id = layer_id,
        pad_net = net, pad_number = number, pad_hole_radius = Fin 0, pad_points = points,
        pad_rotation = rotation, pad_id = ident, pad_hole_length = Fin 0,
        pad_hole_point = hole_point, pad_is_plated = is_plated, pad_is_locked = is_locked\<rparr>"
    unfolding EeFootprintPad_convert_to_mm_def
    by (simp add: convert_to_mm_0 convert_to_mm_10 convert_to_mm_100 Let_def)
qed

text \<open>
  C3 (confirmed). The \<^verbatim>\<open>convert_to_mm\<close> of a 3D-model placement returns without an
  error; it replaces the \<open>x\<close> and \<open>y\<close> of the translation by what the unit converter
  returns for them and leaves the \<open>z\<close> of the translation, the rotation (all three
  components) and the other fields as they were. The translation (10, 20, 30) becomes
  (2.54, 5.08, 30).
\<close>

theorem Ee3dModel_convert_to_mm_fields:
  "(\<exists>m'. Ee3dModel_convert_to_mm m = Inr m' \<and>
      convert_to_mm (PFloat (m3b_x (m3_translation m))) = Inr (m3b_x (m3_translation m')) \<and>
      convert_to_mm (PFloat (m3b_y (m3_translation m))) = Inr (m3b_y (m3_translation m')) \<and>
      m3b_z (m3_translation m') = m3b_z (m3_translation m) \<and>
      m3_rotation m' = m3_rotation m \<and>
      m3_name m' = m3_name m \<and> m3_uuid m' = m3_uuid m \<and> m3_raw_obj m' = m3_raw_obj m) \<and>
   Ee3dModel_convert_to_mm
     \<lparr>m3_name = name, m3_uuid = uuid,
      m3_translation = \<lparr>m3b_x = Fin 10, m3b_y = Fin 20, m3b_z = Fin 30\<rparr>,
      m3_rotation = rotation, m3_raw_obj = raw_obj\<rparr> =
   Inr \<lparr>m3_name = name, m3_uuid = uuid,
        m3_translation = \<lparr>m3b_x = float_lit 254 2, m3b_y = float_lit 508 2, m3b_z = Fin 30\<rparr>,
        m3_rotation = rotation, m3_raw_obj = raw_obj\<rparr>"
proof (rule conjI)
  show "\<exists>m'. Ee3dModel_convert_to_mm m = Inr m' \<and>
      convert_to_mm (PFloat (m3b_x (m3_translation m))) = Inr (m3b_x (m3_translation m')) \<and>
      convert_to_mm (PFloat (m3b_y (m3_translation m))) = Inr (m3b_y (m3_translation m')) \<and>
      m3b_z (m3_translation m') = m3b_z (m3_translation m) \<and>
      m3_rotation m' = m3_rotation m \<and>
      m3_name m' = m3_name m \<and> m3_uuid m' = m3_uuid m \<and> m3_raw_obj m' = m3_raw_obj m"
    by (simp add: Ee3dModel_convert_to_mm_def Ee3dModelBase_convert_to_mm_def
          convert_to_mm_Fin Let_def)
next
  show "Ee3dModel_convert_to_mm
     \<lparr>m3_name = name, m3_uuid = uuid,
      m3_translation = \<lparr>m3b_x = Fin 10, m3b_y = Fin 20, m3b_z = Fin 30\<rparr>,
      m3_rotation = rotation, m3_raw_obj = raw_obj\<rparr> =
   Inr \<lparr>m3_name = name, m3_uuid = uuid,
        m3_translation = \<lparr>m3b_x = float_lit 254 2, m3b_y = float_lit 508 2, m3b_z = Fin 30\<rparr>,
        m3_rotation = rotation, m3_raw_obj = raw_obj\<rparr>"
    unfolding Ee3dModel_convert_to_mm_def Ee3dModelBase_convert_to_mm_def
    by (simp add: convert_to_mm_10 convert_to_mm_20 Let_def)
qed

text \<open>
  C4 (corrected). The claim: for every displayed-flag field of every entity kind the
  coercion rule returns true on the raw value \<^verbatim>\<open>"show"\<close> and passes any other raw value,
  the empty string included, through unchanged.

  The displayed flag of the footprint text has another rule: it passes \<^verbatim>\<open>"show"\<close>
  through and returns true on the empty string.
\<close>

theorem displayed_flag_counterexample:
  "EeFootprintText_empty_str_display (PStr ''show'') = PStr ''show'' \<and>
   EeFootprintText_empty_str_display (PStr '''') = PBool True"
  by (simp add: EeFootprintText_empty_str_display_def py_eq_def)

lemma py_eq_PStr: "py_eq v (PStr s) \<longleftrightarrow> v = PStr s"
  by (cases v) (simp_all add: py_eq_def)

text \<open>
  C4 as amended: the displayed-flag rule of the four pin entities (settings, name, dot,
  clock) returns true on \<^verbatim>\<open>"show"\<close> and passes every other raw value through unchanged;
  the rule of the footprint text returns true on the empty string and passes every other
  raw value, \<^verbatim>\<open>"show"\<close> included, through unchanged.
\<close>

theorem displayed_flag_rules:
  "EeSymbolPinSettings_parse_display_field v = (if v = PStr ''show'' then PBool True else v) \<and>
   EeSymbolPinName_parse_display_field v = (if v = PStr ''show'' then PBool True else v) \<and>
   EeSymbolPinDotBis_parse_display_field v = (if v = PStr ''show'' then PBool True else v) \<and>
   EeSymbolPinClock_parse_display_field v = (if v = PStr ''show'' then PBool True else v) \<and>
   EeFootprintText_empty_str_display v = (if v = PStr '''' then PBool True else v)"
  by (simp add: EeSymbolPinSettings_parse_display_field_def EeSymbolPinName_parse_display_field_def
        EeSymbolPinDotBis_parse_display_field_def EeSymbolPinClock_parse_display_field_def
        EeFootprintText_empty_str_display_def py_eq_PStr)











text \<open>
  C8 (corrected). The claim: the font-size rule of the pin label maps a point-suffixed
  string to its number (\<^verbatim>\<open>"10pt"\<close> to 10.0), the empty string to 7.0, and passes every
  other raw value through unchanged.

  The last part fails: the rule ends in \<^verbatim>\<open>font_size or 7.0\<close>, so every false value
  becomes 7.0. The raw value \<^verbatim>\<open>0\<close> is not passed through.
\<close>

theorem empty_str_font_counterexample:
  "EeSymbolPinName_empty_str_font (PInt 0) = Inr (PFloat (Fin 7))"
  by (simp add: EeSymbolPinName_empty_str_font_def py_or_def)

text \<open>
  C8 as amended: the rule maps decimal digits followed by \<^verbatim>\<open>pt\<close> to the float of the
  digits (\<^verbatim>\<open>"10pt"\<close> to 10.0); in general it maps a string that contains \<^verbatim>\<open>pt\<close> to
  \<^verbatim>\<open>float\<close> of the string without any \<^verbatim>\<open>pt\<close>, raising \<^verbatim>\<open>ValueError\<close> where that is no
  number; of the other raw values it maps the false ones (the empty string, 0, 0.0,
  \<^verbatim>\<open>False\<close>, \<^verbatim>\<open>None\<close>) to 7.0 and passes the true ones through unchanged.
\<close>

theorem empty_str_font_rule:
  "(ds \<noteq> [] \<and> list_all is_digit ds \<longrightarrow>
      EeSymbolPinName_empty_str_font (PStr (ds @ ''pt'')) =
        Inr (PFloat (round_binary64 (of_nat (nat_of_digits ds))))) \<and>
   (str_with_pt (PStr s) \<longrightarrow>
      EeSymbolPinName_empty_str_font (PStr s) =
        (case float_of_string (replace ''pt'' [] s) of Inl e \<Rightarrow> Inl e | Inr f \<Rightarrow> Inr (PFloat f))) \<and>
   (\<not> str_with_pt v \<longrightarrow>
      EeSymbolPinName_empty_str_font v = Inr (if truthy v then v else PFloat (Fin 7)))"
proof (intro conjI impI)
  assume "ds \<noteq> [] \<and> list_all is_digit ds"
  then show "EeSymbolPinName_empty_str_font (PStr (ds @ ''pt'')) =
        Inr (PFloat (round_binary64 (of_nat (nat_of_digits ds))))"
    by (simp add: EeSymbolPinName_empty_str_font_def contains_append replace_pt_digits
          float_of_string_digits)
next
  assume "str_with_pt (PStr s)"
  then show "EeSymbolPinName_empty_str_font (PStr s) =
        (case float_of_string (replace ''pt'' [] s) of Inl e \<Rightarrow> Inl e | Inr f \<Rightarrow> Inr (PFloat f))"
    by (simp add: EeSymbolPinName_empty_str_font_def str_with_pt_def)
next
  assume "\<not> str_with_pt v"
  then show "EeSymbolPinName_empty_str_font v = Inr (if truthy v then v else PFloat (Fin 7))"
    by (cases v) (simp_all add: EeSymbolPinName_empty_str_font_def str_with_pt_def py_or_def)
qed

lemma round_binary64_10: "round_binary64 10 = Fin 10"
  by (rule round_binary64_cert [where k = 3 and m = "10 * 2 ^ 49"])
     (simp_all add: round_half_even_def Let_def)

theorem empty_str_font_rule_witness:
  "''10'' \<noteq> [] \<and> list_all is_digit ''10'' \<and>
   EeSymbolPinName_empty_str_font (PStr ''10pt'') = Inr (PFloat (Fin 10)) \<and>
   str_with_pt (PStr ''10pt'') \<and>
   float_of_string (replace ''pt'' [] ''10pt'') = Inr (Fin 10) \<and>
   \<not> str_with_pt (PStr []) \<and>
   EeSymbolPinName_empty_str_font (PStr []) = Inr (PFloat (Fin 7))"
proof -
  have d: "''10'' \<noteq> [] \<and> list_all is_digit ''10''"
    by (simp add: is_digit_def)
  have n: "nat_of_digits ''10'' = 10"
    by (simp add: nat_of_digits_def digit_val_def)
  have w: "str_with_pt (PStr ''10pt'')"
    by (simp add: str_with_pt_def)
  have e: "\<not> str_with_pt (PStr [])"
    by (simp add: str_with_pt_def)
  note r = empty_str_font_rule [of "''10''" "''10pt''" "PStr []"]
  from r d have 1: "EeSymbolPinName_empty_str_font (PStr ''10pt'') = Inr (PFloat (Fin 10))"
    by (simp add: n round_binary64_10)
  from r w 1 have 2: "float_of_string (replace ''pt'' [] ''10pt'') = Inr (Fin 10)"
    by (simp split: sum.splits)
  from r e have 3: "EeSymbolPinName_empty_str_font (PStr []) = Inr (PFloat (Fin 7))"
    by simp
  from d 1 w 2 e 3 show ?thesis by (intro conjI) simp_all
qed

text \<open>
  C9 (confirmed). No operation of the layer changes a symbol: after any sequence of
  operations the symbol, and so its bounding box, pins, rectangles, polylines, polygons
  and paths, holds what it held after construction. In particular the \<open>x\<close> and \<open>y\<close>
  of the bounding box are those of the construction.
\<close>

theorem symbol_never_converted:
  "symbol (run cs s) = symbol s \<and>
   sbbox_x (sym_bbox (symbol (run cs s))) = sbbox_x (sym_bbox (symbol s)) \<and>
   sbbox_y (sym_bbox (symbol (run cs s))) = sbbox_y (sym_bbox (symbol s))"
proof -
  have "symbol (run cs s) = symbol s"
    by (induction cs arbitrary: s) (simp_all add: step_symbol)
  then show ?thesis by simp
qed

text \<open>
  C10 (corrected). The claim: the footprint arc defines no unit-conversion mutator and,
  unlike every other footprint entity with length-valued fields, the \<open>stroke_width\<close>
  of an arc is never rescaled to millimeters.

  The arc is not alone in this. The footprint rectangle has a \<open>stroke_width\<close> too, and
  its \<^verbatim>\<open>convert_to_mm\<close> converts \<open>x\<close>, \<open>y\<close>, \<open>width\<close> and \<open>height\<close> only: a
  rectangle of width and height 10 with the stroke width 10 comes out with width and
  height 2.54 and the stroke width 10.
\<close>

theorem rectangle_stroke_width_counterexample:
  "EeFootprintRectangle_convert_to_mm
     \<lparr>frect_x = Fin 0, frect_y = Fin 0, frect_width = Fin 10, frect_height = Fin 10,
      frect_stroke_width = Fin 10, frect_id = ''gge1'', frect_layer_id = 1,
      frect_is_locked = False\<rparr> =
   Inr \<lparr>frect_x = Fin 0, frect_y = Fin 0, frect_width = float_lit 254 2,
        frect_height = float_lit 254 2, frect_stroke_width = Fin 10, frect_id = ''gge1'',
        frect_layer_id = 1, frect_is_locked = False\<rparr>"
  unfolding EeFootprintRectangle_convert_to_mm_def
  by (simp add: convert_to_mm_0 convert_to_mm_10 Let_def)

text \<open>
  C10 as amended: the footprint arc defines no \<^verbatim>\<open>convert_to_mm\<close> and no operation of
  the layer changes an arc, so after any sequence of operations every arc, and so its
  \<open>stroke_width\<close>, is as it was after construction. Each other footprint entity with
  length-valued fields defines a \<^verbatim>\<open>convert_to_mm\<close>, which returns without an error and
  replaces by their conversions: of the bounding box \<open>x\<close> and \<open>y\<close>; of the pad
  \<open>center_x\<close>, \<open>center_y\<close>, \<open>width\<close>, \<open>height\<close>, \<open>hole_radius\<close> and \<open>hole_length\<close>; of
  the track \<open>stroke_width\<close>; of the hole \<open>center_x\<close>, \<open>center_y\<close> and \<open>radius\<close>; of the
  circle \<open>cx\<close>, \<open>cy\<close>, \<open>radius\<close> and \<open>stroke_width\<close>; of the rectangle \<open>x\<close>, \<open>y\<close>,
  \<open>width\<close> and \<open>height\<close>; of the text \<open>center_x\<close>, \<open>center_y\<close>, \<open>stroke_width\<close> and
  \<open>font_size\<close>.
\<close>

theorem arcs_never_converted:
  "fp_arcs (footprint (run cs s)) = fp_arcs (footprint s) \<and>
   map arc_stroke_width (fp_arcs (footprint (run cs s))) =
     map arc_stroke_width (fp_arcs (footprint s)) \<and>
   (\<exists>b'. EeFootprintBbox_convert_to_mm b = Inr b' \<and>
      convert_to_mm (PFloat (fbbox_x b)) = Inr (fbbox_x b') \<and>
      convert_to_mm (PFloat (fbbox_y b)) = Inr (fbbox_y b')) \<and>
   (\<exists>p'. EeFootprintPad_convert_to_mm p = Inr p' \<and>
      convert_to_mm (PFloat (pad_center_x p)) = Inr (pad_center_x p') \<and>
      convert_to_mm (PFloat (pad_center_y p)) = Inr (pad_center_y p') \<and>
      convert_to_mm (PFloat (pad_width p)) = Inr (pad_width p') \<and>
      convert_to_mm (PFloat (pad_height p)) = Inr (pad_height p') \<and>
      convert_to_mm (PFloat (pad_hole_radius p)) = Inr (pad_hole_radius p') \<and>
      convert_to_mm (PFloat (pad_hole_length p)) = Inr (pad_hole_length p')) \<and>
   (\<exists>t'. EeFootprintTrack_convert_to_mm t = Inr t' \<and>
      convert_to_mm (PFloat (track_stroke_width t)) = Inr (track_stroke_width t')) \<and>
   (\<exists>h'. EeFootprintHole_convert_to_mm h = Inr h' \<and>
      convert_to_mm (PFloat (hole_center_x h)) = Inr (hole_center_x h') \<and>
      convert_to_mm (PFloat (hole_center_y h)) = Inr (hole_center_y h') \<and>
      convert_to_mm (PFloat (hole_radius h)) = Inr (hole_radius h')) \<and>
   (\<exists>c'. EeFootprintCircle_convert_to_mm c = Inr c' \<and>
      convert_to_mm (PFloat (circ_cx c)) = Inr (circ_cx c') \<and>
      convert_to_mm (PFloat (circ_cy c)) = Inr (circ_cy c') \<and>
      convert_to_mm (PFloat (circ_radius c)) = Inr (circ_radius c') \<and>
      convert_to_mm (PFloat (circ_stroke_width c)) = Inr (circ_stroke_width c')) \<and>
   (\<exists>r'. EeFootprintRectangle_convert_to_mm r = Inr r' \<and>
      convert_to_mm (PFloat (frect_x r)) = Inr (frect_x r') \<and>
      convert_to_mm (PFloat (frect_y r)) = Inr (frect_y r') \<and>
      convert_to_mm (PFloat (frect_width r)) = Inr (frect_width r') \<and>
      convert_to_mm (PFloat (frect_height r)) = Inr (frect_height r')) \<and>
   (\<exists>x'. EeFootprintText_convert_to_mm x = Inr x' \<and>
      convert_to_mm (PFloat (text_center_x x)) = Inr (text_center_x x') \<and>
      convert_to_mm (PFloat (text_center_y x)) = Inr (text_center_y x') \<and>
      convert_to_mm (PFloat (text_stroke_width x)) = Inr (text_stroke_width x') \<and>
      convert_to_mm (PFloat (text_font_size x)) = Inr (text_font_size x'))"
proof -
  have arcs: "fp_arcs (footprint (run cs s)) = fp_arcs (footprint s)"
    by (induction cs arbitrary: s) (simp_all add: step_arcs)
  have fbbox: "\<exists>b'. EeFootprintBbox_convert_to_mm b = Inr b' \<and>
      convert_to_mm (PFloat (fbbox_x b)) = Inr (fbbox_x b') \<and>
      convert_to_mm (PFloat (fbbox_y b)) = Inr (fbbox_y b')"
    by (simp add: EeFootprintBbox_convert_to_mm_def convert_to_mm_Fin Let_def)
  have fpad: "\<exists>p'. EeFootprintPad_convert_to_mm p = Inr p' \<and>
      convert_to_mm (PFloat (pad_center_x p)) = Inr (pad_center_x p') \<and>
      convert_to_mm (PFloat (pad_center_y p)) = Inr (pad_center_y p') \<and>
      convert_to_mm (PFloat (pad_width p)) = Inr (pad_width p') \<and>
      convert_to_mm (PFloat (pad_height p)) = Inr (pad_height p') \<and>
      convert_to_mm (PFloat (pad_hole_radius p)) = Inr (pad_hole_radius p') \<and>
      convert_to_mm (PFloat (pad_hole_length p)) = Inr (pad_hole_length p')"
    by (simp add: EeFootprintPad_convert_to_mm_def convert_to_mm_Fin Let_def)
  have ftrack: "\<exists>t'. EeFootprintTrack_convert_to_mm t = Inr t' \<and>
      convert_to_mm (PFloat (track_stroke_width t)) = Inr (track_stroke_width t')"
    by (simp add: EeFootprintTrack_convert_to_mm_def convert_to_mm_Fin Let_def)
  have fhole: "\<exists>h'. EeFootprintHole_convert_to_mm h = Inr h' \<and>
      convert_to_mm (PFloat (hole_center_x h)) = Inr (hole_center_x h') \<and>
      convert_to_mm (PFloat (hole_center_y h)) = Inr (hole_center_y h') \<and>
      convert_to_mm (PFloat (hole_radius h)) = Inr (hole_radius h')"
    by (simp add: EeFootprintHole_convert_to_mm_def convert_to_mm_Fin Let_def)
  have fcircle: "\<exists>c'. EeFootprintCircle_convert_to_mm c = Inr c' \<and>
      convert_to_mm (PFloat (circ_cx c)) = Inr (circ_cx c') \<and>
      convert_to_mm (PFloat (circ_cy c)) = Inr (circ_cy c') \<and>
      convert_to_mm (PFloat (circ_radius c)) = Inr (circ_radius c') \<and>
      convert_to_mm (PFloat (circ_stroke_width c)) = Inr (circ_stroke_width c')"
    by (simp add: EeFootprintCircle_convert_to_mm_def convert_to_mm_Fin Let_def)
  have frectangle: "\<exists>r'. EeFootprintRectangle_convert_to_mm r = Inr r' \<and>
      convert_to_mm (PFloat (frect_x r)) = Inr (frect_x r') \<and>
      convert_to_mm (PFloat (frect_y r)) = Inr (frect_y r') \<and>
      convert_to_mm (PFloat (frect_width r)) = Inr (frect_width r') \<and>
      convert_to_mm (PFloat (frect_height r)) = Inr (frect_height r')"
    by (simp add: EeFootprintRectangle_convert_to_mm_def convert_to_mm_Fin Let_def)
  have ftext: "\<exists>x'. EeFootprintText_convert_to_mm x = Inr x' \<and>
      convert_to_mm (PFloat (text_center_x x)) = Inr (text_center_x x') \<and>
      convert_to_mm (PFloat (text_center_y x)) = Inr (text_center_y x') \<and>
      convert_to_mm (PFloat (text_stroke_width x)) = Inr (text_stroke_width x') \<and>
      convert_to_mm (PFloat (text_font_size x)) = Inr (text_font_size x')"
    by (simp add: EeFootprintText_convert_to_mm_def convert_to_mm_Fin Let_def)
  from arcs have "map arc_stroke_width (fp_arcs (footprint (run cs s))) =
     map arc_stroke_width (fp_arcs (footprint s))"
    by simp
  with arcs fbbox fpad ftrack fhole fcircle frectangle ftext show ?thesis
    by (intro conjI)
qed

end
